theory Spec2Isabelle
  imports Main
begin

text \<open>
  The core of the Topay wallet (\<^verbatim>\<open>src/wallet.js\<close>, with the REST client it calls):
  the scan for the first unused address, the collection of inputs, the fee estimate,
  the transaction builder and the public operations on top of them. An operation that
  awaits the back-end or assigns the wallet index takes the wallet and returns its
  result together with the wallet after it; an exception is the \<open>Inl\<close> of the result.
\<close>

section \<open>Errors\<close>

text \<open>
  The wallet raises two sorts of exception of its own: the argument error that
  \<^verbatim>\<open>checkArgument(condition, name)\<close> throws when its condition is false, and
  \<^verbatim>\<open>TopayError(title, detail)\<close>, raised by the transaction builder and by the
  REST client. A third sort passes through it: the error the bitcoincashjs library
  throws when it rejects an argument of the transaction it is asked to build.
\<close>

datatype error = IllegalArgument string | TopayError string string | LibraryError string

definition checkArgument :: "bool \<Rightarrow> string \<Rightarrow> error + unit" where
  "checkArgument condition name = (if condition then Inr () else Inl (IllegalArgument name))"

text \<open>
  The error kinds of the error-handling design, and the kind of each error the code can
  raise: a failed \<^verbatim>\<open>checkArgument\<close> is an invalid argument (a malformed recipient,
  a non-integer amount or fee, an out-of-range derivation index), the REST client's
  \<^verbatim>\<open>TopayError\<close> carries the title \<^verbatim>\<open>Communication error\<close>, and the only other
  \<^verbatim>\<open>TopayError\<close> is the builder's. The library's error is its own argument check.
  No raise site produces a kind of its own for a wallet without history.
\<close>

datatype error_kind = InvalidArgument | InsufficientFunds | InsufficientHistory | CommunicationError

fun kind_of :: "error \<Rightarrow> error_kind" where
  "kind_of (IllegalArgument name) = InvalidArgument"
| "kind_of (TopayError title detail) =
     (if title = ''Communication error'' then CommunicationError else InsufficientFunds)"
| "kind_of (LibraryError message) = InvalidArgument"

section \<open>The REST client\<close>

text \<open>
  The response data of the Insight back-end: the fields of an address record that the
  client and the wallet read, and one entry of an address' UTXO set.
\<close>

record addressData =
  transactions :: "string list"
  balanceSat :: int
  unconfirmedBalanceSat :: int

record utxo =
  txid :: string
  vout :: int
  address :: string
  scriptPubKey :: string
  satoshis :: int

datatype request = GET string | POST string string

text \<open>
  \<^verbatim>\<open>TopayRestClient\<close>. The server is a function from each request to what
  \<^verbatim>\<open>_unwrap\<close> makes of its answer: the response data, or the
  \<^verbatim>\<open>TopayError\<close> thrown for a failed request. \<open>requests\<close> is the record of
  the requests issued so far, in order, which is how "no query was issued" is stated.
\<close>

record restClient =
  addrResponse :: "string \<Rightarrow> error + addressData"
  utxoResponse :: "string \<Rightarrow> error + utxo list"
  sendResponse :: "string \<Rightarrow> error + string"
  requests :: "request list"

definition client_getAddress :: "restClient \<Rightarrow> string \<Rightarrow> (error + addressData) \<times> restClient" where
  "client_getAddress rc a =
     (addrResponse rc a, rc\<lparr>requests := requests rc @ [GET (''/addr/'' @ a)]\<rparr>)"

definition client_getBalance :: "restClient \<Rightarrow> string \<Rightarrow> (error + int) \<times> restClient" where
  "client_getBalance rc a =
     (case client_getAddress rc a of
        (Inl e, rc') \<Rightarrow> (Inl e, rc')
      | (Inr d, rc') \<Rightarrow> (Inr (balanceSat d + unconfirmedBalanceSat d), rc'))"

definition client_getUtxoSet :: "restClient \<Rightarrow> string \<Rightarrow> (error + utxo list) \<times> restClient" where
  "client_getUtxoSet rc a =
     (utxoResponse rc a, rc\<lparr>requests := requests rc @ [GET (''/addr/'' @ a @ ''/utxo'')]\<rparr>)"

definition client_sendTransaction :: "restClient \<Rightarrow> string \<Rightarrow> (error + string) \<times> restClient" where
  "client_sendTransaction rc tx =
     (sendResponse rc tx, rc\<lparr>requests := requests rc @ [POST ''/tx/send'' tx]\<rparr>)"

section \<open>Transactions\<close>

text \<open>
  An input as \<^verbatim>\<open>_getAvailableInputs\<close> builds it from a UTXO. Satoshi amounts are
  JavaScript numbers holding integers; they are modelled as \<open>int\<close>, which is exact for
  the sums and differences the wallet computes as long as they stay below \<open>2^53\<close>.
  The theorems about the transactions that are built take numbers in this range.
\<close>

record input =
  txId :: string
  outputIndex :: int
  address :: string
  script :: string
  satoshis :: int

text \<open>
  Modelled from the spec: the \<^verbatim>\<open>Transaction\<close> class belongs to the bitcoincashjs
  library, which is not part of the repository. A transaction is the ordered list of its
  inputs, the ordered list of its outputs (destination and satoshis) and the keys it was
  signed with.
\<close>

record transaction =
  inputs :: "input list"
  outputs :: "(string \<times> int) list"
  signedWith :: "string list"

text \<open>
  What the wallet needs of the library is a parameter of the model:
  \<^verbatim>\<open>Address.isValid(_, 'livenet')\<close>; the strings that \<^verbatim>\<open>new Address(_)\<close> accepts
  as the destination of an output; the unspent outputs that \<^verbatim>\<open>from\<close> accepts as
  inputs; \<^verbatim>\<open>publicKey.toAddress().toString()\<close>; and the hexadecimal serialization
  \<^verbatim>\<open>transaction.toString()\<close>, which serializes without checking the transaction.
\<close>

record library =
  isValid :: "string \<Rightarrow> bool"
  acceptsAddress :: "string \<Rightarrow> bool"
  acceptsInput :: "input \<Rightarrow> bool"
  toAddress :: "string \<Rightarrow> string"
  toString :: "transaction \<Rightarrow> string"

text \<open>
  The builder methods of \<^verbatim>\<open>Transaction\<close>, as the library behaves. \<^verbatim>\<open>from\<close> adds
  the inputs and throws when the library rejects one of them. \<^verbatim>\<open>to\<close> first checks
  that the amount is a natural number (its message is the one quoted), then builds the
  address of the destination, which throws for a string that is no address, and adds
  the output. \<^verbatim>\<open>sign\<close> records the key. The inputs are taken to be distinct
  unspent outputs where a theorem speaks of the inputs of the transaction.
\<close>

definition Transaction_new :: transaction where
  "Transaction_new = \<lparr>inputs = [], outputs = [], signedWith = []\<rparr>"

definition Transaction_from :: "library \<Rightarrow> transaction \<Rightarrow> input list \<Rightarrow> error + transaction" where
  "Transaction_from L tx ins =
     (if list_all (acceptsInput L) ins then Inr (tx\<lparr>inputs := inputs tx @ ins\<rparr>)
      else Inl (LibraryError ''Invalid unspent output''))"

definition Transaction_to :: "library \<Rightarrow> transaction \<Rightarrow> string \<Rightarrow> int \<Rightarrow> error + transaction" where
  "Transaction_to L tx a amount =
     (if amount < 0 then Inl (LibraryError ''Amount is expected to be a positive integer'')
      else if \<not> acceptsAddress L a then Inl (LibraryError ''Invalid address'')
      else Inr (tx\<lparr>outputs := outputs tx @ [(a, amount)]\<rparr>))"

definition Transaction_sign :: "transaction \<Rightarrow> string \<Rightarrow> transaction" where
  "Transaction_sign tx key = tx\<lparr>signedWith := signedWith tx @ [key]\<rparr>"

section \<open>The wallet\<close>

text \<open>
  \<^verbatim>\<open>TopayWallet\<close>. \<open>hdPrivateKey\<close> and \<open>hdPublicKey\<close> give the key derived at an
  index (\<^verbatim>\<open>derive(index).privateKey\<close>, \<^verbatim>\<open>derive(index).publicKey\<close>); the
  constructor of the model takes them in place of the mnemonic they are derived from.
  The fields \<^verbatim>\<open>_maxWalletIndex\<close> and \<^verbatim>\<open>_satoshisPerByte\<close> are assigned by the
  constructor only and are constants here. An index is an \<open>int\<close>: the wallet computes
  \<open>walletIndex - 1\<close> at index 0, and the key derivation rejects the result.
\<close>

record wallet =
  hdPrivateKey :: "int \<Rightarrow> string"
  hdPublicKey :: "int \<Rightarrow> string"
  walletIndex :: int
  restClient :: restClient

definition maxWalletIndex :: int where
  "maxWalletIndex = 1000"

definition constructor :: "(int \<Rightarrow> string) \<Rightarrow> (int \<Rightarrow> string) \<Rightarrow> restClient \<Rightarrow> wallet" where
  "constructor priv pub rc =
     \<lparr>hdPrivateKey = priv, hdPublicKey = pub, walletIndex = 0, restClient = rc\<rparr>"

definition getPrivateKey :: "wallet \<Rightarrow> int \<Rightarrow> error + string" where
  "getPrivateKey w index =
     (case checkArgument (0 \<le> index \<and> index \<le> maxWalletIndex) ''index'' of
        Inl e \<Rightarrow> Inl e
      | Inr _ \<Rightarrow> Inr (hdPrivateKey w index))"

definition getPublicKey :: "wallet \<Rightarrow> int \<Rightarrow> error + string" where
  "getPublicKey w index =
     (case checkArgument (0 \<le> index \<and> index \<le> maxWalletIndex) ''index'' of
        Inl e \<Rightarrow> Inl e
      | Inr _ \<Rightarrow> Inr (hdPublicKey w index))"

definition getAddress :: "library \<Rightarrow> wallet \<Rightarrow> int \<Rightarrow> error + string" where
  "getAddress L w index =
     (case getPublicKey w index of
        Inl e \<Rightarrow> Inl e
      | Inr key \<Rightarrow> Inr (toAddress L key))"

text \<open>
  \<^verbatim>\<open>_updateWalletIndex\<close>: the scan loop. Each round derives the address at the
  wallet index, asks the back-end for its history and either stops (no transaction)
  or increments the index. An exception leaves the index where the loop had brought it.
\<close>

function updateWalletIndex :: "library \<Rightarrow> wallet \<Rightarrow> (error + unit) \<times> wallet" where
  "updateWalletIndex L w =
     (if walletIndex w < maxWalletIndex then
        (case getAddress L w (walletIndex w) of
           Inl e \<Rightarrow> (Inl e, w)
         | Inr a \<Rightarrow>
            (case client_getAddress (restClient w) a of
               (Inl e, rc) \<Rightarrow> (Inl e, w\<lparr>restClient := rc\<rparr>)
             | (Inr d, rc) \<Rightarrow>
                 if length (transactions d) = 0 then (Inr (), w\<lparr>restClient := rc\<rparr>)
                 else updateWalletIndex L (w\<lparr>restClient := rc, walletIndex := walletIndex w + 1\<rparr>)))
      else (Inr (), w))"
  by pat_completeness auto
termination
  by (relation "measure (\<lambda>(L, w). nat (maxWalletIndex - walletIndex w))") auto

text \<open>
  \<^verbatim>\<open>_getAvailableInputs\<close>: the UTXO set of the address one below the wallet index,
  each entry renamed to the input shape.
\<close>

definition toInput :: "utxo \<Rightarrow> input" where
  "toInput u =
     \<lparr>txId = txid u, outputIndex = vout u, address = utxo.address u,
      script = scriptPubKey u, satoshis = utxo.satoshis u\<rparr>"

definition getAvailableInputs :: "library \<Rightarrow> wallet \<Rightarrow> (error + input list) \<times> wallet" where
  "getAvailableInputs L w =
     (case getAddress L w (walletIndex w - 1) of
        Inl e \<Rightarrow> (Inl e, w)
      | Inr a \<Rightarrow>
         (case client_getUtxoSet (restClient w) a of
            (Inl e, rc) \<Rightarrow> (Inl e, w\<lparr>restClient := rc\<rparr>)
          | (Inr utxoSet, rc) \<Rightarrow> (Inr (map toInput utxoSet), w\<lparr>restClient := rc\<rparr>)))"

text \<open>
  \<^verbatim>\<open>inputs.reduce((total, input) => total + input.satoshis, 0)\<close>, as
  \<^verbatim>\<open>_buildTransaction\<close> and \<^verbatim>\<open>widthraw\<close> compute the balance of the inputs.
\<close>

definition balanceOf :: "input list \<Rightarrow> int" where
  "balanceOf ins = foldl (\<lambda>total i. total + satoshis i) 0 ins"

text \<open>
  \<^verbatim>\<open>_buildTransaction\<close>. The funds check comes first; the change address and the
  signing key are derived next, and either derivation can throw the index error; the
  library then builds the transaction, and throws when it rejects an input, a
  destination or an amount.
\<close>

definition buildTransaction ::
  "library \<Rightarrow> wallet \<Rightarrow> input list \<Rightarrow> string \<Rightarrow> int \<Rightarrow> int \<Rightarrow> error + transaction" where
  "buildTransaction L w ins recipient amount fee =
     (let balance = balanceOf ins in
      if balance < amount + fee
      then Inl (TopayError ''Cannot create transaction'' ''Insufficient funds.'')
      else
        let change = balance - amount - fee in
        case getAddress L w (walletIndex w) of
          Inl e \<Rightarrow> Inl e
        | Inr changeAddress \<Rightarrow>
           (case getPrivateKey w (walletIndex w - 1) of
              Inl e \<Rightarrow> Inl e
            | Inr privateKey \<Rightarrow>
               (case Transaction_from L Transaction_new ins of
                  Inl e \<Rightarrow> Inl e
                | Inr t0 \<Rightarrow>
                   (case (if recipient \<noteq> changeAddress
                          then (case Transaction_to L t0 recipient amount of
                                  Inl e \<Rightarrow> Inl e
                                | Inr t \<Rightarrow>
                                    if change > 0 then Transaction_to L t changeAddress change
                                    else Inr t)
                          else Transaction_to L t0 recipient (amount + change)) of
                      Inl e \<Rightarrow> Inl e
                    | Inr t1 \<Rightarrow> Inr (Transaction_sign t1 privateKey)))))"

text \<open>
  \<^verbatim>\<open>Math.ceil(transactionBytes * this._satoshisPerByte)\<close> is double-precision
  arithmetic. \<^verbatim>\<open>transactionBytes\<close> is half the length of the hexadecimal string, a
  double without rounding. The literal \<^verbatim>\<open>1.1\<close> denotes the double nearest to it,
  \<open>4953959590107546 / 2^52\<close>. The product of the two is therefore the exact value
  \<open>len * 4953959590107546 / 2^53\<close> rounded to 53 significant bits, ties to even
  (the exponent stays far from the limits of the format), and \<^verbatim>\<open>Math.ceil\<close> takes
  the least integer not below it.
\<close>

definition satoshisPerByte_mantissa :: nat where
  "satoshisPerByte_mantissa = 4953959590107546"

fun bitlen :: "nat \<Rightarrow> nat" where
  "bitlen n = (if n = 0 then 0 else Suc (bitlen (n div 2)))"

definition roundToDouble :: "nat \<Rightarrow> nat" where
  "roundToDouble n =
     (if bitlen n \<le> 53 then n
      else
        let s = bitlen n - 53; q = n div 2 ^ s; r = n mod 2 ^ s
        in (if 2 * r > 2 ^ s \<or> (2 * r = 2 ^ s \<and> odd q) then q + 1 else q) * 2 ^ s)"

definition ceilBytesTimesRate :: "nat \<Rightarrow> int" where
  "ceilBytesTimesRate len =
     - ((- int (roundToDouble (len * satoshisPerByte_mantissa))) div 2 ^ 53)"

text \<open>\<^verbatim>\<open>_calculateFee\<close>: the builder run with fee 0, then the size of its result.\<close>

definition calculateFee ::
  "library \<Rightarrow> wallet \<Rightarrow> input list \<Rightarrow> string \<Rightarrow> int \<Rightarrow> error + int" where
  "calculateFee L w ins recipient amount =
     (case buildTransaction L w ins recipient amount 0 of
        Inl e \<Rightarrow> Inl e
      | Inr tx \<Rightarrow> Inr (ceilBytesTimesRate (length (toString L tx))))"

section \<open>The public operations\<close>

definition initialize :: "library \<Rightarrow> wallet \<Rightarrow> (error + unit) \<times> wallet" where
  "initialize L w = updateWalletIndex L w"

definition getBalance :: "library \<Rightarrow> wallet \<Rightarrow> (error + int) \<times> wallet" where
  "getBalance L w =
     (case updateWalletIndex L w of
        (Inl e, w1) \<Rightarrow> (Inl e, w1)
      | (Inr _, w1) \<Rightarrow>
          if walletIndex w1 = 0 then (Inr 0, w1)
          else
            (case getAddress L w1 (walletIndex w1 - 1) of
               Inl e \<Rightarrow> (Inl e, w1)
             | Inr a \<Rightarrow>
                (case client_getBalance (restClient w1) a of
                   (r, rc) \<Rightarrow> (r, w1\<lparr>restClient := rc\<rparr>))))"

definition getReceiveAddress :: "library \<Rightarrow> wallet \<Rightarrow> (error + string) \<times> wallet" where
  "getReceiveAddress L w =
     (case updateWalletIndex L w of
        (Inl e, w1) \<Rightarrow> (Inl e, w1)
      | (Inr _, w1) \<Rightarrow> (getAddress L w1 (walletIndex w1), w1))"

text \<open>
  The arguments \<^verbatim>\<open>amount\<close> and \<^verbatim>\<open>fee\<close> of \<^verbatim>\<open>send\<close> are arbitrary JavaScript
  values. The checks tell three cases apart: \<^verbatim>\<open>undefined\<close>, a number for which
  \<^verbatim>\<open>Number.isInteger\<close> holds, and any other value (a fraction, \<^verbatim>\<open>NaN\<close>, a
  string, ...).
\<close>

datatype jsvalue = Undefined | Integer int | NonInteger

fun Number_isInteger :: "jsvalue \<Rightarrow> bool" where
  "Number_isInteger (Integer n) = True"
| "Number_isInteger v = False"

fun numberOf :: "jsvalue \<Rightarrow> int" where
  "numberOf (Integer n) = n"
| "numberOf v = 0"

definition send ::
  "library \<Rightarrow> wallet \<Rightarrow> string \<Rightarrow> jsvalue \<Rightarrow> jsvalue \<Rightarrow> (error + string) \<times> wallet" where
  "send L w recipient amount fee =
     (case checkArgument (isValid L recipient) ''recipient'' of
        Inl e \<Rightarrow> (Inl e, w)
      | Inr _ \<Rightarrow>
     (case checkArgument (Number_isInteger amount) ''amount'' of
        Inl e \<Rightarrow> (Inl e, w)
      | Inr _ \<Rightarrow>
     (case checkArgument (fee = Undefined \<or> Number_isInteger fee) ''fee'' of
        Inl e \<Rightarrow> (Inl e, w)
      | Inr _ \<Rightarrow>
     (case updateWalletIndex L w of
        (Inl e, w1) \<Rightarrow> (Inl e, w1)
      | (Inr _, w1) \<Rightarrow>
     (case getAvailableInputs L w1 of
        (Inl e, w2) \<Rightarrow> (Inl e, w2)
      | (Inr ins, w2) \<Rightarrow>
     (case (if fee = Undefined then calculateFee L w2 ins recipient (numberOf amount)
            else Inr (numberOf fee)) of
        Inl e \<Rightarrow> (Inl e, w2)
      | Inr fee' \<Rightarrow>
     (case buildTransaction L w2 ins recipient (numberOf amount) fee' of
        Inl e \<Rightarrow> (Inl e, w2)
      | Inr tx \<Rightarrow>
         (case client_sendTransaction (restClient w2) (toString L tx) of
            (r, rc) \<Rightarrow> (r, w2\<lparr>restClient := rc\<rparr>)))))))))"

definition widthraw :: "library \<Rightarrow> wallet \<Rightarrow> string \<Rightarrow> (error + string) \<times> wallet" where
  "widthraw L w recipient =
     (case checkArgument (isValid L recipient) ''recipient'' of
        Inl e \<Rightarrow> (Inl e, w)
      | Inr _ \<Rightarrow>
     (case updateWalletIndex L w of
        (Inl e, w1) \<Rightarrow> (Inl e, w1)
      | (Inr _, w1) \<Rightarrow>
     (case getAvailableInputs L w1 of
        (Inl e, w2) \<Rightarrow> (Inl e, w2)
      | (Inr ins, w2) \<Rightarrow>
         (let balance = balanceOf ins in
          case calculateFee L w2 ins recipient balance of
            Inl e \<Rightarrow> (Inl e, w2)
          | Inr fee \<Rightarrow>
             (case buildTransaction L w2 ins recipient (balance - fee) fee of
                Inl e \<Rightarrow> (Inl e, w2)
              | Inr tx \<Rightarrow>
                 (case client_sendTransaction (restClient w2) (toString L tx) of
                    (r, rc) \<Rightarrow> (r, w2\<lparr>restClient := rc\<rparr>)))))))"

section \<open>Fixtures\<close>

text \<open>
  The fixtures of the wallet's test suite: a back-end on which the first address has been
  used and holds two unspent outputs of 1000 and 2000 satoshis, and on which the later
  addresses are clean. Keys, addresses and the serialization are stand-ins: the key at
  index \<open>i\<close> is a tag followed by \<open>i\<close> marks, and a transaction serializes to as many
  bytes as a pay-to-public-key-hash transaction with its numbers of inputs and outputs
  has (10, and 148 for each input, and 34 for each output).
\<close>

definition testPrivateKey :: "int \<Rightarrow> string" where
  "testPrivateKey i = ''prv'' @ replicate (nat i) (CHR ''+'')"

definition testPublicKey :: "int \<Rightarrow> string" where
  "testPublicKey i = ''pub'' @ replicate (nat i) (CHR ''+'')"

definition testLibrary :: library where
  "testLibrary =
     \<lparr>isValid = (\<lambda>a. take 5 a = ''addr:''),
      acceptsAddress = (\<lambda>a. take 5 a = ''addr:''),
      acceptsInput = (\<lambda>i. 0 \<le> satoshis i),
      toAddress = (\<lambda>key. ''addr:'' @ key),
      toString = (\<lambda>tx. replicate
        (2 * (10 + 148 * length (inputs tx) + 34 * length (outputs tx))) (CHR ''0''))\<rparr>"

definition FIRST_ADDRESS :: string where
  "FIRST_ADDRESS = ''addr:pub''"

definition SECOND_ADDRESS :: string where
  "SECOND_ADDRESS = ''addr:pub+''"

definition THIRD_ADDRESS :: string where
  "THIRD_ADDRESS = ''addr:pub++''"

definition CLEAN_ADDRESS_DATA :: addressData where
  "CLEAN_ADDRESS_DATA = \<lparr>transactions = [], balanceSat = 0, unconfirmedBalanceSat = 0\<rparr>"

definition DIRTY_ADDRESS_DATA :: addressData where
  "DIRTY_ADDRESS_DATA =
     \<lparr>transactions = replicate 42 ''tx'', balanceSat = 2000, unconfirmedBalanceSat = 1000\<rparr>"

definition UTXO_SET :: "utxo list" where
  "UTXO_SET =
     [\<lparr>txid = ''0626'', vout = 2, address = FIRST_ADDRESS, scriptPubKey = ''76a9'', satoshis = 1000\<rparr>,
      \<lparr>txid = ''1cc0'', vout = 5, address = FIRST_ADDRESS, scriptPubKey = ''76a9'', satoshis = 2000\<rparr>]"

definition TRANSACTION_INPUTS :: "input list" where
  "TRANSACTION_INPUTS =
     [\<lparr>txId = ''0626'', outputIndex = 2, address = FIRST_ADDRESS, script = ''76a9'', satoshis = 1000\<rparr>,
      \<lparr>txId = ''1cc0'', outputIndex = 5, address = FIRST_ADDRESS, script = ''76a9'', satoshis = 2000\<rparr>]"

definition cleanClient :: restClient where
  "cleanClient =
     \<lparr>addrResponse = (\<lambda>a. Inr CLEAN_ADDRESS_DATA),
      utxoResponse = (\<lambda>a. Inr []),
      sendResponse = (\<lambda>tx. Inr ''some transaction id''),
      requests = []\<rparr>"

definition dirtyClient :: restClient where
  "dirtyClient =
     \<lparr>addrResponse = (\<lambda>a. Inr (if a = FIRST_ADDRESS then DIRTY_ADDRESS_DATA else CLEAN_ADDRESS_DATA)),
      utxoResponse = (\<lambda>a. Inr (if a = FIRST_ADDRESS then UTXO_SET else [])),
      sendResponse = (\<lambda>tx. Inr ''some transaction id''),
      requests = []\<rparr>"

text \<open>
  On \<open>spentClient\<close> the first address has been used and holds nothing any more, as
  after a withdrawal.
\<close>

definition spentClient :: restClient where
  "spentClient =
     \<lparr>addrResponse = (\<lambda>a. Inr (if a = FIRST_ADDRESS then DIRTY_ADDRESS_DATA else CLEAN_ADDRESS_DATA)),
      utxoResponse = (\<lambda>a. Inr []),
      sendResponse = (\<lambda>tx. Inr ''some transaction id''),
      requests = []\<rparr>"

text \<open>
  \<open>cleanWallet\<close> is a new wallet on a back-end without history, \<open>newWallet\<close> a new
  wallet on the back-end with the unspent outputs, \<open>dirtyWallet\<close> the latter with its
  index on the second address, where the scan brings it, and \<open>spentWallet\<close> a new
  wallet on the back-end whose first address is spent.
\<close>

definition spentWallet :: wallet where
  "spentWallet = constructor testPrivateKey testPublicKey spentClient"

definition cleanWallet :: wallet where
  "cleanWallet = constructor testPrivateKey testPublicKey cleanClient"

definition newWallet :: wallet where
  "newWallet = constructor testPrivateKey testPublicKey dirtyClient"

definition dirtyWallet :: wallet where
  "dirtyWallet = newWallet\<lparr>walletIndex := 1\<rparr>"

section \<open>Notions of the claims\<close>

text \<open>
  \<open>unusedAt L w i\<close>: the back-end reports no transaction for the address derived at
  index \<open>i\<close>.
\<close>

definition unusedAt :: "library \<Rightarrow> wallet \<Rightarrow> int \<Rightarrow> bool" where
  "unusedAt L w i =
     (case addrResponse (restClient w) (toAddress L (hdPublicKey w i)) of
        Inl e \<Rightarrow> False
      | Inr d \<Rightarrow> length (transactions d) = 0)"

text \<open>
  The numbers of a call of the builder are exact: the satoshis of the inputs are not
  negative, and their total, the amount, the fee and each number the builder computes
  from them are integers of magnitude at most \<open>2^53\<close>, which a JavaScript number holds
  and adds without rounding.
\<close>

definition exactNumbers :: "input list \<Rightarrow> int \<Rightarrow> int \<Rightarrow> bool" where
  "exactNumbers ins amount fee =
     (let total = sum_list (map satoshis ins); change = total - amount - fee
      in (\<forall>i \<in> set ins. 0 \<le> satoshis i) \<and> total \<le> 2 ^ 53
         \<and> \<bar>amount\<bar> \<le> 2 ^ 53 \<and> \<bar>fee\<bar> \<le> 2 ^ 53 \<and> \<bar>amount + fee\<bar> \<le> 2 ^ 53
         \<and> \<bar>total - amount\<bar> \<le> 2 ^ 53 \<and> \<bar>change\<bar> \<le> 2 ^ 53
         \<and> \<bar>amount + change\<bar> \<le> 2 ^ 53)"

text \<open>The range of the wallet index: \<open>0 \<le> walletIndex \<le> 1000\<close>.\<close>

definition indexInRange :: "wallet \<Rightarrow> bool" where
  "indexInRange w = (0 \<le> walletIndex w \<and> walletIndex w \<le> maxWalletIndex)"

text \<open>
  The fee in exact arithmetic: the byte length \<open>len / 2\<close> times \<open>11 / 10\<close>, rounded up
  to an integer, for a hexadecimal string of \<open>len\<close> characters.
\<close>

definition ceilBytesTimesRate_exact :: "nat \<Rightarrow> int" where
  "ceilBytesTimesRate_exact len = - ((- (11 * int len)) div 20)"

section \<open>The address scan\<close>

declare updateWalletIndex.simps [simp del]

lemmas test_defs = testPrivateKey_def testPublicKey_def testLibrary_def FIRST_ADDRESS_def
  SECOND_ADDRESS_def THIRD_ADDRESS_def CLEAN_ADDRESS_DATA_def DIRTY_ADDRESS_DATA_def UTXO_SET_def
  TRANSACTION_INPUTS_def cleanClient_def dirtyClient_def spentClient_def
  cleanWallet_def newWallet_def dirtyWallet_def spentWallet_def constructor_def

lemma getAddress_in_range:
  "0 \<le> i \<Longrightarrow> i \<le> maxWalletIndex \<Longrightarrow> getAddress L w i = Inr (toAddress L (hdPublicKey w i))"
  by (simp add: getAddress_def getPublicKey_def checkArgument_def)

lemma getAddress_out_of_range:
  "i < 0 \<or> maxWalletIndex < i \<Longrightarrow> getAddress L w i = Inl (IllegalArgument ''index'')"
  by (auto simp add: getAddress_def getPublicKey_def checkArgument_def)

lemma scan_at_max: "\<not> walletIndex w < maxWalletIndex \<Longrightarrow> updateWalletIndex L w = (Inr (), w)"
  by (subst updateWalletIndex.simps) simp

lemma scan_step:
  assumes "0 \<le> walletIndex w" "walletIndex w < maxWalletIndex"
    and "addrResponse (restClient w) (toAddress L (hdPublicKey w (walletIndex w))) = r"
  shows "updateWalletIndex L w =
     (let rc = (restClient w)\<lparr>requests := requests (restClient w) @
                  [GET (''/addr/'' @ toAddress L (hdPublicKey w (walletIndex w)))]\<rparr>
      in case r of
           Inl e \<Rightarrow> (Inl e, w\<lparr>restClient := rc\<rparr>)
         | Inr d \<Rightarrow> if length (transactions d) = 0 then (Inr (), w\<lparr>restClient := rc\<rparr>)
                    else updateWalletIndex L (w\<lparr>restClient := rc, walletIndex := walletIndex w + 1\<rparr>))"
  using assms
  by (subst updateWalletIndex.simps)
     (simp add: getAddress_in_range client_getAddress_def Let_def split: sum.splits)

lemma scan_spec:
  assumes "0 \<le> walletIndex w" "walletIndex w \<le> maxWalletIndex"
    and "\<forall>a. \<exists>d. addrResponse (restClient w) a = Inr d"
  shows "\<exists>w'. updateWalletIndex L w = (Inr (), w')
      \<and> hdPublicKey w' = hdPublicKey w
      \<and> addrResponse (restClient w') = addrResponse (restClient w)
      \<and> walletIndex w \<le> walletIndex w' \<and> walletIndex w' \<le> maxWalletIndex
      \<and> (\<forall>i. walletIndex w \<le> i \<and> i < walletIndex w' \<longrightarrow> \<not> unusedAt L w i)
      \<and> (walletIndex w' < maxWalletIndex \<longrightarrow> unusedAt L w (walletIndex w'))"
  using assms
proof (induction L w rule: updateWalletIndex.induct)
  case (1 L w)
  show ?case
  proof (cases "walletIndex w < maxWalletIndex")
    case False
    with "1.prems" show ?thesis by (auto simp add: scan_at_max)
  next
    case True
    let ?a = "toAddress L (hdPublicKey w (walletIndex w))"
    let ?rc = "(restClient w)\<lparr>requests := requests (restClient w) @ [GET (''/addr/'' @ ?a)]\<rparr>"
    from "1.prems"(3) obtain d where d: "addrResponse (restClient w) ?a = Inr d" by blast
    have ga: "getAddress L w (walletIndex w) = Inr ?a"
      using "1.prems" by (simp add: getAddress_in_range)
    have step: "updateWalletIndex L w =
        (if length (transactions d) = 0 then (Inr (), w\<lparr>restClient := ?rc\<rparr>)
         else updateWalletIndex L (w\<lparr>restClient := ?rc, walletIndex := walletIndex w + 1\<rparr>))"
      using scan_step [OF "1.prems"(1) True d] by (simp add: Let_def)
    show ?thesis
    proof (cases "length (transactions d) = 0")
      case True
      then have "unusedAt L w (walletIndex w)" by (simp add: unusedAt_def d)
      with True step "1.prems" show ?thesis by auto
    next
      case nonempty: False
      let ?w1 = "w\<lparr>restClient := ?rc, walletIndex := walletIndex w + 1\<rparr>"
      have used: "\<not> unusedAt L w (walletIndex w)" using nonempty by (simp add: unusedAt_def d)
      have un: "unusedAt L ?w1 = unusedAt L w" by (rule ext) (simp add: unusedAt_def)
      have "\<exists>w'. updateWalletIndex L ?w1 = (Inr (), w')
          \<and> hdPublicKey w' = hdPublicKey ?w1
          \<and> addrResponse (restClient w') = addrResponse (restClient ?w1)
          \<and> walletIndex ?w1 \<le> walletIndex w' \<and> walletIndex w' \<le> maxWalletIndex
          \<and> (\<forall>i. walletIndex ?w1 \<le> i \<and> i < walletIndex w' \<longrightarrow> \<not> unusedAt L ?w1 i)
          \<and> (walletIndex w' < maxWalletIndex \<longrightarrow> unusedAt L ?w1 (walletIndex w'))"
      proof (rule "1.IH" [OF True ga _ refl nonempty])
        show "(Inr d, ?rc) = client_getAddress (restClient w) ?a"
          by (simp add: client_getAddress_def d)
      qed (use "1.prems" True in simp_all)
      then obtain w' where w': "updateWalletIndex L ?w1 = (Inr (), w')"
          "hdPublicKey w' = hdPublicKey w"
          "addrResponse (restClient w') = addrResponse (restClient w)"
          "walletIndex w + 1 \<le> walletIndex w'" "walletIndex w' \<le> maxWalletIndex"
          "\<forall>i. walletIndex w + 1 \<le> i \<and> i < walletIndex w' \<longrightarrow> \<not> unusedAt L w i"
          "walletIndex w' < maxWalletIndex \<longrightarrow> unusedAt L w (walletIndex w')"
        unfolding un by auto
      have "\<forall>i. walletIndex w \<le> i \<and> i < walletIndex w' \<longrightarrow> \<not> unusedAt L w i"
      proof (intro allI impI)
        fix i assume i: "walletIndex w \<le> i \<and> i < walletIndex w'"
        show "\<not> unusedAt L w i"
        proof (cases "i = walletIndex w")
          case True then show ?thesis using used by simp
        next
          case False
          with i have "walletIndex w + 1 \<le> i \<and> i < walletIndex w'" by arith
          with w'(6) show ?thesis by blast
        qed
      qed
      with w' step nonempty show ?thesis by auto
    qed
  qed
qed

text \<open>
  Whatever the back-end answers, and also when the scan throws, the index does not
  decrease and does not pass the bound.
\<close>

lemma scan_index:
  "walletIndex w \<le> walletIndex (snd (updateWalletIndex L w)) \<and>
   (walletIndex w \<le> maxWalletIndex \<longrightarrow>
      walletIndex (snd (updateWalletIndex L w)) \<le> maxWalletIndex)"
proof (induction L w rule: updateWalletIndex.induct)
  case (1 L w)
  show ?case
  proof (cases "walletIndex w < maxWalletIndex")
    case False
    then show ?thesis by (simp add: scan_at_max)
  next
    case below: True
    show ?thesis
    proof (cases "getAddress L w (walletIndex w)")
      case (Inl e)
      with below show ?thesis by (subst (1 2) updateWalletIndex.simps) simp
    next
      case (Inr a)
      obtain r rc where c: "client_getAddress (restClient w) a = (r, rc)" by force
      show ?thesis
      proof (cases r)
        case (Inl e)
        with below Inr c show ?thesis by (subst (1 2) updateWalletIndex.simps) simp
      next
        case r: (Inr d)
        show ?thesis
        proof (cases "length (transactions d) = 0")
          case True
          with below Inr c r show ?thesis by (subst (1 2) updateWalletIndex.simps) simp
        next
          case False
          let ?w1 = "w\<lparr>restClient := rc, walletIndex := walletIndex w + 1\<rparr>"
          from "1.IH" [OF below Inr c [symmetric] r False] below
          have "walletIndex w + 1 \<le> walletIndex (snd (updateWalletIndex L ?w1))"
            and "walletIndex (snd (updateWalletIndex L ?w1)) \<le> maxWalletIndex"
            by simp_all
          moreover have "updateWalletIndex L w = updateWalletIndex L ?w1"
            using below Inr c r False by (subst updateWalletIndex.simps) simp
          ultimately show ?thesis by simp
        qed
      qed
    qed
  qed
qed

text \<open>
  Claim C3. The index never decreases, whatever the back-end answers and wherever the
  scan starts. When the index starts within \<open>0..1000\<close> and the back-end answers every
  history query, \<^verbatim>\<open>_updateWalletIndex\<close> returns, and the wallet index is then the
  smallest index at or above the starting one whose address has no transaction, or
  \<open>maxWalletIndex = 1000\<close> if there is none below it; a second scan from that state
  returns with the same index.
\<close>

theorem updateWalletIndex_first_unused:
  "walletIndex w \<le> walletIndex (snd (updateWalletIndex L w)) \<and>
   (0 \<le> walletIndex w \<and> walletIndex w \<le> maxWalletIndex
      \<and> (\<forall>a. \<exists>d. addrResponse (restClient w) a = Inr d) \<longrightarrow>
    (\<exists>w'. updateWalletIndex L w = (Inr (), w')
       \<and> walletIndex w' =
            Min ({i. walletIndex w \<le> i \<and> i < maxWalletIndex \<and> unusedAt L w i} \<union> {maxWalletIndex})
       \<and> (\<exists>w''. updateWalletIndex L w' = (Inr (), w'') \<and> walletIndex w'' = walletIndex w')))"
proof (intro conjI impI)
  show "walletIndex w \<le> walletIndex (snd (updateWalletIndex L w))"
    using scan_index [of w L] by simp
next
  assume a: "0 \<le> walletIndex w \<and> walletIndex w \<le> maxWalletIndex
      \<and> (\<forall>a. \<exists>d. addrResponse (restClient w) a = Inr d)"
  let ?S = "{i. walletIndex w \<le> i \<and> i < maxWalletIndex \<and> unusedAt L w i} \<union> {maxWalletIndex}"
  from a scan_spec [of w L] obtain w' where w':
      "updateWalletIndex L w = (Inr (), w')"
      "hdPublicKey w' = hdPublicKey w"
      "addrResponse (restClient w') = addrResponse (restClient w)"
      "walletIndex w \<le> walletIndex w'" "walletIndex w' \<le> maxWalletIndex"
      "\<forall>i. walletIndex w \<le> i \<and> i < walletIndex w' \<longrightarrow> \<not> unusedAt L w i"
      "walletIndex w' < maxWalletIndex \<longrightarrow> unusedAt L w (walletIndex w')"
    by blast
  have fin: "finite ?S"
  proof (rule finite_subset)
    show "?S \<subseteq> {walletIndex w .. maxWalletIndex}" using a by auto
  qed simp
  have mem: "walletIndex w' \<in> ?S" using w'(4,5,7) by auto
  have least: "\<And>i. i \<in> ?S \<Longrightarrow> walletIndex w' \<le> i"
  proof -
    fix i assume "i \<in> ?S"
    then consider "i = maxWalletIndex" | "walletIndex w \<le> i" "unusedAt L w i" by blast
    then show "walletIndex w' \<le> i"
    proof cases
      case 1 with w'(5) show ?thesis by simp
    next
      case 2 with w'(6) show ?thesis by force
    qed
  qed
  have min: "walletIndex w' = Min ?S"
    by (rule sym, rule Min_eqI [OF fin least mem])
  have a': "0 \<le> walletIndex w'" "walletIndex w' \<le> maxWalletIndex"
      "\<forall>a. \<exists>d. addrResponse (restClient w') a = Inr d"
    using a w' by auto
  from scan_spec [OF a', of L] obtain w'' where w'':
      "updateWalletIndex L w' = (Inr (), w'')"
      "walletIndex w' \<le> walletIndex w''" "walletIndex w'' \<le> maxWalletIndex"
      "\<forall>i. walletIndex w' \<le> i \<and> i < walletIndex w'' \<longrightarrow> \<not> unusedAt L w' i"
    by blast
  have same: "unusedAt L w' = unusedAt L w"
    by (rule ext) (simp add: unusedAt_def w'(2,3))
  have "walletIndex w'' = walletIndex w'"
  proof (cases "walletIndex w' < maxWalletIndex")
    case True
    with w'(7) have "unusedAt L w' (walletIndex w')" by (simp add: same)
    with w''(4) have "\<not> walletIndex w' < walletIndex w''" by auto
    with w''(2) show ?thesis by simp
  next
    case False
    with w''(2,3) w'(5) show ?thesis by simp
  qed
  with w'(1) w''(1) min
  show "\<exists>w'. updateWalletIndex L w = (Inr (), w')
       \<and> walletIndex w' = Min ?S
       \<and> (\<exists>w''. updateWalletIndex L w' = (Inr (), w'') \<and> walletIndex w'' = walletIndex w')"
    by blast
qed

theorem updateWalletIndex_first_unused_witness:
  "0 \<le> walletIndex newWallet \<and> walletIndex newWallet \<le> maxWalletIndex
   \<and> (\<forall>a. \<exists>d. addrResponse (restClient newWallet) a = Inr d)
   \<and> walletIndex (snd (updateWalletIndex testLibrary newWallet)) = 1
   \<and> Min ({i. walletIndex newWallet \<le> i \<and> i < maxWalletIndex \<and> unusedAt testLibrary newWallet i}
          \<union> {maxWalletIndex}) = 1"
proof -
  have h: "0 \<le> walletIndex newWallet \<and> walletIndex newWallet \<le> maxWalletIndex
      \<and> (\<forall>a. \<exists>d. addrResponse (restClient newWallet) a = Inr d)"
    by (simp add: test_defs maxWalletIndex_def)
  have e: "walletIndex (snd (updateWalletIndex testLibrary newWallet)) = 1"
    by (simp add: updateWalletIndex.simps test_defs getAddress_def getPublicKey_def
        checkArgument_def maxWalletIndex_def client_getAddress_def)
  from updateWalletIndex_first_unused [of newWallet testLibrary] h
  obtain w' where "updateWalletIndex testLibrary newWallet = (Inr (), w')"
    and "walletIndex w' =
      Min ({i. walletIndex newWallet \<le> i \<and> i < maxWalletIndex \<and> unusedAt testLibrary newWallet i}
          \<union> {maxWalletIndex})"
    by blast
  with e h show ?thesis by simp
qed

section \<open>The range of the wallet index\<close>

lemma scan_in_range: "indexInRange w \<Longrightarrow> indexInRange (snd (updateWalletIndex L w))"
  using scan_index [of w L] by (simp add: indexInRange_def)

lemma getAvailableInputs_index: "walletIndex (snd (getAvailableInputs L w)) = walletIndex w"
  by (simp add: getAvailableInputs_def split: sum.split prod.split)

lemma getBalance_index:
  "walletIndex (snd (getBalance L w)) = walletIndex (snd (updateWalletIndex L w))"
  by (simp add: getBalance_def split: sum.split prod.split)

lemma getReceiveAddress_index:
  "walletIndex (snd (getReceiveAddress L w)) = walletIndex (snd (updateWalletIndex L w))"
  by (simp add: getReceiveAddress_def split: sum.split prod.split)

lemma send_index:
  "walletIndex (snd (send L w recipient amount fee)) = walletIndex w
   \<or> walletIndex (snd (send L w recipient amount fee)) = walletIndex (snd (updateWalletIndex L w))"
proof (cases "updateWalletIndex L w")
  case scan: (Pair r w1)
  show ?thesis
  proof (cases "getAvailableInputs L w1")
    case (Pair r2 w2)
    with getAvailableInputs_index [of L w1] have "walletIndex w2 = walletIndex w1" by simp
    with scan Pair show ?thesis
      by (simp add: send_def split: sum.split prod.split)
  qed
qed

lemma widthraw_index:
  "walletIndex (snd (widthraw L w recipient)) = walletIndex w
   \<or> walletIndex (snd (widthraw L w recipient)) = walletIndex (snd (updateWalletIndex L w))"
proof (cases "updateWalletIndex L w")
  case scan: (Pair r w1)
  show ?thesis
  proof (cases "getAvailableInputs L w1")
    case (Pair r2 w2)
    with getAvailableInputs_index [of L w1] have "walletIndex w2 = walletIndex w1" by simp
    with scan Pair show ?thesis
      by (simp add: widthraw_def Let_def split: sum.split prod.split)
  qed
qed

text \<open>
  Claim C10. The constructor sets the wallet index to 0, and each public operation
  (\<^verbatim>\<open>initialize\<close>, \<^verbatim>\<open>getBalance\<close>, \<^verbatim>\<open>getReceiveAddress\<close>, \<^verbatim>\<open>send\<close>,
  \<^verbatim>\<open>widthraw\<close>), whether it returns or throws, leaves a wallet index within
  \<open>0..1000\<close> when it starts from one: the only assignment to the index is the
  increment of the scan loop, taken while the index is below the bound.
\<close>

theorem walletIndex_invariant:
  "walletIndex (constructor priv pub rc) = 0 \<and> indexInRange (constructor priv pub rc) \<and>
   (indexInRange w \<longrightarrow>
      indexInRange (snd (initialize L w)) \<and>
      indexInRange (snd (getBalance L w)) \<and>
      indexInRange (snd (getReceiveAddress L w)) \<and>
      indexInRange (snd (send L w recipient amount fee)) \<and>
      indexInRange (snd (widthraw L w recipient)))"
proof (intro conjI impI)
  show "walletIndex (constructor priv pub rc) = 0" by (simp add: constructor_def)
  show "indexInRange (constructor priv pub rc)"
    by (simp add: constructor_def indexInRange_def maxWalletIndex_def)
next
  assume w: "indexInRange w"
  note s = scan_in_range [OF w, of L]
  show "indexInRange (snd (initialize L w))" using s by (simp add: initialize_def)
  show "indexInRange (snd (getBalance L w))"
    using s getBalance_index [of L w] by (simp add: indexInRange_def)
  show "indexInRange (snd (getReceiveAddress L w))"
    using s getReceiveAddress_index [of L w] by (simp add: indexInRange_def)
  show "indexInRange (snd (send L w recipient amount fee))"
    using s w send_index [of L w recipient amount fee] by (auto simp add: indexInRange_def)
  show "indexInRange (snd (widthraw L w recipient))"
    using s w widthraw_index [of L w recipient] by (auto simp add: indexInRange_def)
qed

theorem walletIndex_invariant_witness:
  "indexInRange newWallet \<and>
   indexInRange (snd (initialize testLibrary newWallet)) \<and>
   indexInRange (snd (getBalance testLibrary newWallet)) \<and>
   indexInRange (snd (getReceiveAddress testLibrary newWallet)) \<and>
   indexInRange (snd (send testLibrary newWallet THIRD_ADDRESS (Integer 1500) (Integer 500))) \<and>
   indexInRange (snd (widthraw testLibrary newWallet THIRD_ADDRESS))"
proof -
  have h: "indexInRange newWallet"
    by (simp add: indexInRange_def newWallet_def constructor_def maxWalletIndex_def)
  with walletIndex_invariant [of testPrivateKey testPublicKey dirtyClient newWallet testLibrary
      THIRD_ADDRESS "Integer 1500" "Integer 500"]
  show ?thesis by blast
qed

section \<open>The transaction builder\<close>

lemma foldl_satoshis:
  "foldl (\<lambda>total i. total + satoshis i) a ins = a + sum_list (map satoshis ins)"
  by (induction ins arbitrary: a) simp_all

lemma balanceOf_sum: "balanceOf ins = sum_list (map satoshis ins)"
  by (simp add: balanceOf_def foldl_satoshis)

lemma getPrivateKey_in_range:
  "0 \<le> i \<Longrightarrow> i \<le> maxWalletIndex \<Longrightarrow> getPrivateKey w i = Inr (hdPrivateKey w i)"
  by (simp add: getPrivateKey_def checkArgument_def)

lemma getPrivateKey_out_of_range:
  "i < 0 \<or> maxWalletIndex < i \<Longrightarrow> getPrivateKey w i = Inl (IllegalArgument ''index'')"
  by (auto simp add: getPrivateKey_def checkArgument_def)

lemma buildTransaction_short:
  "balanceOf ins < amount + fee \<Longrightarrow>
   buildTransaction L w ins recipient amount fee =
     Inl (TopayError ''Cannot create transaction'' ''Insufficient funds.'')"
  by (simp add: buildTransaction_def)

lemma buildTransaction_other_error:
  assumes "\<not> balanceOf ins < amount + fee"
    and "buildTransaction L w ins recipient amount fee = Inl e"
  shows "e = IllegalArgument ''index'' \<or> (\<exists>message. e = LibraryError message)"
  using assms
  by (auto simp add: buildTransaction_def Let_def getAddress_def getPublicKey_def
      getPrivateKey_def checkArgument_def Transaction_from_def Transaction_to_def
      split: if_splits sum.splits)

text \<open>
  The transaction that is built when the index allows the two derivations and the
  library accepts the inputs, the amount and the destinations.
\<close>

lemma buildTransaction_built:
  assumes "\<not> balanceOf ins < amount + fee"
    and "1 \<le> walletIndex w" and "walletIndex w \<le> maxWalletIndex"
    and "list_all (acceptsInput L) ins"
    and "0 \<le> (if recipient = toAddress L (hdPublicKey w (walletIndex w))
               then balanceOf ins - fee else amount)"
    and "acceptsAddress L recipient"
    and "recipient = toAddress L (hdPublicKey w (walletIndex w))
         \<or> balanceOf ins - amount - fee \<le> 0
         \<or> acceptsAddress L (toAddress L (hdPublicKey w (walletIndex w)))"
  shows "buildTransaction L w ins recipient amount fee =
     Inr \<lparr>inputs = ins,
          outputs =
            (let change = balanceOf ins - amount - fee;
                 changeAddress = toAddress L (hdPublicKey w (walletIndex w))
             in if recipient = changeAddress then [(recipient, amount + change)]
                else if 0 < change then [(recipient, amount), (changeAddress, change)]
                else [(recipient, amount)]),
          signedWith = [hdPrivateKey w (walletIndex w - 1)]\<rparr>"
proof -
  let ?c = "toAddress L (hdPublicKey w (walletIndex w))"
  have keys: "getAddress L w (walletIndex w) = Inr ?c"
      "getPrivateKey w (walletIndex w - 1) = Inr (hdPrivateKey w (walletIndex w - 1))"
    using assms(2,3) by (simp_all add: getAddress_in_range getPrivateKey_in_range)
  have added: "Transaction_from L Transaction_new ins =
      Inr \<lparr>inputs = ins, outputs = [], signedWith = []\<rparr>"
    using assms(4) by (simp add: Transaction_from_def Transaction_new_def)
  show ?thesis
  proof (cases "recipient = ?c")
    case True
    with assms(5) have "\<not> amount + (balanceOf ins - amount - fee) < 0" by simp
    with True assms(1,6) keys added show ?thesis
      by (simp add: buildTransaction_def Let_def Transaction_to_def Transaction_sign_def)
  next
    case False
    show ?thesis
    proof (cases "0 < balanceOf ins - amount - fee")
      case True
      with False assms(7) have "acceptsAddress L ?c" by auto
      with True False assms(1,5,6) keys added show ?thesis
        by (simp add: buildTransaction_def Let_def Transaction_to_def Transaction_sign_def)
    next
      case nochange: False
      with False assms(1,5,6) keys added show ?thesis
        by (simp add: buildTransaction_def Let_def Transaction_to_def Transaction_sign_def)
    qed
  qed
qed

lemma buildTransaction_no_key:
  assumes "\<not> balanceOf ins < amount + fee"
    and "\<not> (1 \<le> walletIndex w \<and> walletIndex w \<le> maxWalletIndex)"
  shows "buildTransaction L w ins recipient amount fee = Inl (IllegalArgument ''index'')"
proof (cases "walletIndex w = 0")
  case True
  then have "getPrivateKey w (walletIndex w - 1) = Inl (IllegalArgument ''index'')"
    by (simp add: getPrivateKey_out_of_range)
  moreover from True have "getAddress L w (walletIndex w) = Inr (toAddress L (hdPublicKey w 0))"
    by (simp add: getAddress_in_range maxWalletIndex_def)
  ultimately show ?thesis
    using assms(1) by (simp add: buildTransaction_def Let_def)
next
  case False
  with assms(2) have "walletIndex w < 0 \<or> maxWalletIndex < walletIndex w" by arith
  then have "getAddress L w (walletIndex w) = Inl (IllegalArgument ''index'')"
    by (rule getAddress_out_of_range)
  with assms(1) show ?thesis
    by (simp add: buildTransaction_def Let_def)
qed

text \<open>
  Claim C1, as the code has it. Let the library accept the inputs, let the recipient
  and the change address be addresses, let the numbers be exact, and let \<open>0 \<le> A\<close>
  and \<open>A + F \<le> T\<close> for the total \<open>T\<close> of the inputs, the amount \<open>A\<close> and the fee
  \<open>F\<close>. \<^verbatim>\<open>_buildTransaction\<close> then returns a transaction exactly when the wallet
  index is within \<open>1..1000\<close>, where the change address and the signing key at
  index - 1 can be derived. The outputs of the transaction it returns are: one output
  of \<open>A + (T - A - F)\<close> when the recipient is the change address; else the recipient's
  output of \<open>A\<close>, followed by a change output of \<open>T - A - F\<close> to the address at the
  wallet index only when that change is positive. The outputs sum to \<open>T - F\<close>.
\<close>

theorem buildTransaction_outputs:
  assumes "list_all (acceptsInput L) ins"
    and "exactNumbers ins amount fee"
    and "0 \<le> amount"
    and "amount + fee \<le> sum_list (map satoshis ins)"
    and "acceptsAddress L recipient"
    and "acceptsAddress L (toAddress L (hdPublicKey w (walletIndex w)))"
  shows "((\<exists>tx. buildTransaction L w ins recipient amount fee = Inr tx)
            = (1 \<le> walletIndex w \<and> walletIndex w \<le> maxWalletIndex))
      \<and> (\<forall>tx. buildTransaction L w ins recipient amount fee = Inr tx \<longrightarrow>
            outputs tx =
              (let change = sum_list (map satoshis ins) - amount - fee;
                   changeAddress = toAddress L (hdPublicKey w (walletIndex w))
               in if recipient = changeAddress then [(recipient, amount + change)]
                  else if 0 < change then [(recipient, amount), (changeAddress, change)]
                  else [(recipient, amount)])
          \<and> sum_list (map snd (outputs tx)) = sum_list (map satoshis ins) - fee)"
proof -
  from assms(4) have enough: "\<not> balanceOf ins < amount + fee"
    by (simp add: balanceOf_sum)
  show ?thesis
  proof (cases "1 \<le> walletIndex w \<and> walletIndex w \<le> maxWalletIndex")
    case True
    then have r: "1 \<le> walletIndex w" "walletIndex w \<le> maxWalletIndex" by simp_all
    from assms(3,4) have p: "0 \<le> (if recipient = toAddress L (hdPublicKey w (walletIndex w))
               then balanceOf ins - fee else amount)"
      by (simp add: balanceOf_sum)
    from assms(6) have c: "recipient = toAddress L (hdPublicKey w (walletIndex w))
         \<or> balanceOf ins - amount - fee \<le> 0
         \<or> acceptsAddress L (toAddress L (hdPublicKey w (walletIndex w)))" by simp
    show ?thesis
      unfolding buildTransaction_built [OF enough r assms(1) p assms(5) c]
      using assms(4) True by (simp add: Let_def balanceOf_sum)
  next
    case False
    from buildTransaction_no_key [OF enough False] False
    show ?thesis by simp
  qed
qed

theorem buildTransaction_outputs_witness:
  "list_all (acceptsInput testLibrary) TRANSACTION_INPUTS
   \<and> exactNumbers TRANSACTION_INPUTS 1500 500
   \<and> sum_list (map satoshis TRANSACTION_INPUTS) = 3000
   \<and> acceptsAddress testLibrary THIRD_ADDRESS
   \<and> acceptsAddress testLibrary (toAddress testLibrary (hdPublicKey dirtyWallet (walletIndex dirtyWallet)))
   \<and> 1 \<le> walletIndex dirtyWallet \<and> walletIndex dirtyWallet \<le> maxWalletIndex
   \<and> (\<exists>tx. buildTransaction testLibrary dirtyWallet TRANSACTION_INPUTS THIRD_ADDRESS 1500 500 = Inr tx
         \<and> outputs tx = [(THIRD_ADDRESS, 1500), (SECOND_ADDRESS, 1000)]
         \<and> sum_list (map snd (outputs tx)) = 2500)"
proof -
  have h: "list_all (acceptsInput testLibrary) TRANSACTION_INPUTS"
      "exactNumbers TRANSACTION_INPUTS 1500 500"
      "(0::int) \<le> 1500"
      "1500 + 500 \<le> sum_list (map satoshis TRANSACTION_INPUTS)"
      "acceptsAddress testLibrary THIRD_ADDRESS"
      "acceptsAddress testLibrary (toAddress testLibrary (hdPublicKey dirtyWallet (walletIndex dirtyWallet)))"
    by (simp_all add: test_defs exactNumbers_def Let_def)
  have s: "sum_list (map satoshis TRANSACTION_INPUTS) = 3000"
    by (simp add: test_defs)
  have r: "1 \<le> walletIndex dirtyWallet \<and> walletIndex dirtyWallet \<le> maxWalletIndex"
    by (simp add: test_defs maxWalletIndex_def)
  note t = buildTransaction_outputs [OF h]
  from t r obtain tx
    where tx: "buildTransaction testLibrary dirtyWallet TRANSACTION_INPUTS THIRD_ADDRESS 1500 500 = Inr tx"
    by blast
  with t have "outputs tx =
      (let change = sum_list (map satoshis TRANSACTION_INPUTS) - 1500 - 500;
           changeAddress = toAddress testLibrary (hdPublicKey dirtyWallet (walletIndex dirtyWallet))
       in if THIRD_ADDRESS = changeAddress then [(THIRD_ADDRESS, 1500 + change)]
          else if 0 < change then [(THIRD_ADDRESS, 1500), (changeAddress, change)]
          else [(THIRD_ADDRESS, 1500)])"
    and "sum_list (map snd (outputs tx)) = sum_list (map satoshis TRANSACTION_INPUTS) - 500"
    by blast+
  then have "outputs tx = [(THIRD_ADDRESS, 1500), (SECOND_ADDRESS, 1000)]"
    and "sum_list (map snd (outputs tx)) = 2500"
    by (simp_all add: Let_def test_defs)
  with tx h(1,2,5,6) s r show ?thesis by blast
qed

text \<open>
  The claim as stated takes every amount and every recipient. On the wallet of the
  test suite, with the inputs of 3000 satoshis and a fee of 500, an amount of -1
  satisfies \<open>A + F \<le> T\<close> and the library's \<^verbatim>\<open>to\<close> throws on it; so it does for a
  recipient that is no address. No transaction is returned.
\<close>

theorem buildTransaction_outputs_counterexample:
  "(- 1) + 500 \<le> sum_list (map satoshis TRANSACTION_INPUTS)
   \<and> 1 \<le> walletIndex dirtyWallet \<and> walletIndex dirtyWallet \<le> maxWalletIndex
   \<and> buildTransaction testLibrary dirtyWallet TRANSACTION_INPUTS THIRD_ADDRESS (- 1) 500 =
       Inl (LibraryError ''Amount is expected to be a positive integer'')
   \<and> 1500 + 500 \<le> sum_list (map satoshis TRANSACTION_INPUTS)
   \<and> isl (buildTransaction testLibrary dirtyWallet TRANSACTION_INPUTS ''nowhere'' 1500 500)"
  by (simp add: buildTransaction_def balanceOf_def Let_def test_defs getAddress_def
      getPublicKey_def getPrivateKey_def checkArgument_def maxWalletIndex_def
      Transaction_new_def Transaction_from_def Transaction_to_def)

text \<open>
  Claim C2. \<^verbatim>\<open>_buildTransaction\<close> throws its \<^verbatim>\<open>TopayError\<close> ("Insufficient
  funds.") exactly when the satoshis of the inputs sum to less than amount + fee; the
  errors it can throw otherwise are argument errors, of the key derivation or of the
  library. A throw yields no transaction. The builder assigns no field of the wallet:
  it is a function that reads the wallet and returns the transaction or the error, so
  the wallet index after it is the one before it.
\<close>

theorem buildTransaction_insufficient_funds:
  "(buildTransaction L w ins recipient amount fee =
      Inl (TopayError ''Cannot create transaction'' ''Insufficient funds.''))
     = (sum_list (map satoshis ins) < amount + fee)
   \<and> (\<exists>e. buildTransaction L w ins recipient amount fee = Inl e \<and> kind_of e = InsufficientFunds)
     = (sum_list (map satoshis ins) < amount + fee)"
proof (cases "balanceOf ins < amount + fee")
  case True
  then show ?thesis
    by (simp add: buildTransaction_short balanceOf_sum [symmetric])
next
  case False
  have "\<And>e. buildTransaction L w ins recipient amount fee = Inl e \<Longrightarrow> kind_of e = InvalidArgument"
    using buildTransaction_other_error [OF False] by force
  moreover have "\<And>e. buildTransaction L w ins recipient amount fee = Inl e \<Longrightarrow>
      e \<noteq> TopayError ''Cannot create transaction'' ''Insufficient funds.''"
    using buildTransaction_other_error [OF False] by force
  ultimately show ?thesis using False
    by (auto simp add: balanceOf_sum [symmetric])
qed

theorem buildTransaction_insufficient_funds_witness:
  "sum_list (map satoshis TRANSACTION_INPUTS) < 6000 + 500
   \<and> buildTransaction testLibrary dirtyWallet TRANSACTION_INPUTS THIRD_ADDRESS 6000 500 =
       Inl (TopayError ''Cannot create transaction'' ''Insufficient funds.'')
   \<and> \<not> sum_list (map satoshis TRANSACTION_INPUTS) < 2500 + 500
   \<and> buildTransaction testLibrary dirtyWallet TRANSACTION_INPUTS THIRD_ADDRESS 2500 500 \<noteq>
       Inl (TopayError ''Cannot create transaction'' ''Insufficient funds.'')"
proof -
  have h: "sum_list (map satoshis TRANSACTION_INPUTS) < 6000 + 500"
      "\<not> sum_list (map satoshis TRANSACTION_INPUTS) < 2500 + 500"
    by (simp_all add: test_defs)
  with buildTransaction_insufficient_funds [of testLibrary dirtyWallet TRANSACTION_INPUTS THIRD_ADDRESS 6000 500]
    buildTransaction_insufficient_funds [of testLibrary dirtyWallet TRANSACTION_INPUTS THIRD_ADDRESS 2500 500]
  show ?thesis by blast
qed

text \<open>
  Claim C4, as the code has it. Let the library accept the inputs, let the numbers be
  exact, let \<open>A + F \<le> T\<close> and \<open>F \<le> T\<close>, so that amount + change is not negative,
  and let the recipient be the change address, the address derived at the wallet
  index, and an address for the library. \<^verbatim>\<open>_buildTransaction\<close> then returns a
  transaction exactly when the wallet index is at least 1, and the transaction it
  returns has exactly one output, of amount + change, to the recipient.
\<close>

theorem buildTransaction_self_payment:
  assumes "list_all (acceptsInput L) ins"
    and "exactNumbers ins amount fee"
    and "amount + fee \<le> sum_list (map satoshis ins)"
    and "fee \<le> sum_list (map satoshis ins)"
    and "getAddress L w (walletIndex w) = Inr recipient"
    and "acceptsAddress L recipient"
  shows "((\<exists>tx. buildTransaction L w ins recipient amount fee = Inr tx) = (1 \<le> walletIndex w))
      \<and> (\<forall>tx. buildTransaction L w ins recipient amount fee = Inr tx \<longrightarrow>
            outputs tx = [(recipient, amount + (sum_list (map satoshis ins) - amount - fee))]
          \<and> length (outputs tx) = 1)"
proof -
  from assms(3) have enough: "\<not> balanceOf ins < amount + fee"
    by (simp add: balanceOf_sum)
  have r0: "0 \<le> walletIndex w \<and> walletIndex w \<le> maxWalletIndex"
  proof (rule ccontr)
    assume "\<not> (0 \<le> walletIndex w \<and> walletIndex w \<le> maxWalletIndex)"
    then have "walletIndex w < 0 \<or> maxWalletIndex < walletIndex w" by arith
    from getAddress_out_of_range [OF this, of L w] assms(5) show False by simp
  qed
  then have a: "recipient = toAddress L (hdPublicKey w (walletIndex w))"
    using assms(5) by (simp add: getAddress_in_range)
  show ?thesis
  proof (cases "1 \<le> walletIndex w")
    case True
    with r0 have r: "1 \<le> walletIndex w" "walletIndex w \<le> maxWalletIndex" by simp_all
    from a assms(4) have p: "0 \<le> (if recipient = toAddress L (hdPublicKey w (walletIndex w))
               then balanceOf ins - fee else amount)"
      by (simp add: balanceOf_sum)
    from a have c: "recipient = toAddress L (hdPublicKey w (walletIndex w))
         \<or> balanceOf ins - amount - fee \<le> 0
         \<or> acceptsAddress L (toAddress L (hdPublicKey w (walletIndex w)))" by simp
    show ?thesis
      unfolding buildTransaction_built [OF enough r assms(1) p assms(6) c]
      using a True by (simp add: Let_def balanceOf_sum)
  next
    case False
    then have "\<not> (1 \<le> walletIndex w \<and> walletIndex w \<le> maxWalletIndex)" by simp
    from buildTransaction_no_key [OF enough this] False
    show ?thesis by simp
  qed
qed

theorem buildTransaction_self_payment_witness:
  "list_all (acceptsInput testLibrary) TRANSACTION_INPUTS
   \<and> exactNumbers TRANSACTION_INPUTS 1500 500
   \<and> sum_list (map satoshis TRANSACTION_INPUTS) = 3000
   \<and> getAddress testLibrary dirtyWallet (walletIndex dirtyWallet) = Inr SECOND_ADDRESS
   \<and> acceptsAddress testLibrary SECOND_ADDRESS
   \<and> 1 \<le> walletIndex dirtyWallet
   \<and> (\<exists>tx. buildTransaction testLibrary dirtyWallet TRANSACTION_INPUTS SECOND_ADDRESS 1500 500 = Inr tx
         \<and> outputs tx = [(SECOND_ADDRESS, 2500)])"
proof -
  have h: "list_all (acceptsInput testLibrary) TRANSACTION_INPUTS"
      "exactNumbers TRANSACTION_INPUTS 1500 500"
      "1500 + 500 \<le> sum_list (map satoshis TRANSACTION_INPUTS)"
      "500 \<le> sum_list (map satoshis TRANSACTION_INPUTS)"
      "getAddress testLibrary dirtyWallet (walletIndex dirtyWallet) = Inr SECOND_ADDRESS"
      "acceptsAddress testLibrary SECOND_ADDRESS"
    by (simp_all add: test_defs maxWalletIndex_def getAddress_def getPublicKey_def
        checkArgument_def exactNumbers_def Let_def)
  have s: "sum_list (map satoshis TRANSACTION_INPUTS) = 3000"
    by (simp add: test_defs)
  have r: "1 \<le> walletIndex dirtyWallet" by (simp add: test_defs)
  note t = buildTransaction_self_payment [OF h]
  from t r obtain tx
    where tx: "buildTransaction testLibrary dirtyWallet TRANSACTION_INPUTS SECOND_ADDRESS 1500 500 = Inr tx"
    by blast
  with t have "outputs tx =
      [(SECOND_ADDRESS, 1500 + (sum_list (map satoshis TRANSACTION_INPUTS) - 1500 - 500))]"
    by blast
  then have "outputs tx = [(SECOND_ADDRESS, 2500)]"
    by (simp add: test_defs)
  with tx h(1,2,5,6) s r show ?thesis by blast
qed

text \<open>
  The claim as stated takes every amount and fee with \<open>A + F \<le> T\<close>. On the wallet
  of the test suite, paying the change address an amount of -500 with a fee of 3500
  from the inputs of 3000 satoshis leaves no change; the merged output would be -500,
  and the library's \<^verbatim>\<open>to\<close> throws on it. No output is produced.
\<close>

theorem buildTransaction_self_payment_counterexample:
  "(- 500) + 3500 \<le> sum_list (map satoshis TRANSACTION_INPUTS)
   \<and> getAddress testLibrary dirtyWallet (walletIndex dirtyWallet) = Inr SECOND_ADDRESS
   \<and> 1 \<le> walletIndex dirtyWallet
   \<and> buildTransaction testLibrary dirtyWallet TRANSACTION_INPUTS SECOND_ADDRESS (- 500) 3500 =
       Inl (LibraryError ''Amount is expected to be a positive integer'')"
  by (simp add: buildTransaction_def balanceOf_def Let_def test_defs getAddress_def
      getPublicKey_def getPrivateKey_def checkArgument_def maxWalletIndex_def
      Transaction_new_def Transaction_from_def Transaction_to_def)

section \<open>Collecting inputs\<close>

lemma getAvailableInputs_no_history:
  "walletIndex w = 0 \<Longrightarrow> getAvailableInputs L w = (Inl (IllegalArgument ''index''), w)"
  by (simp add: getAvailableInputs_def getAddress_out_of_range)

lemma getAvailableInputs_query:
  assumes "1 \<le> walletIndex w" and "walletIndex w \<le> maxWalletIndex"
  shows "getAvailableInputs L w =
     (let a = toAddress L (hdPublicKey w (walletIndex w - 1))
      in (case utxoResponse (restClient w) a of
            Inl e \<Rightarrow> Inl e
          | Inr utxoSet \<Rightarrow> Inr (map toInput utxoSet),
          w\<lparr>restClient := (restClient w)\<lparr>requests :=
               requests (restClient w) @ [GET (''/addr/'' @ a @ ''/utxo'')]\<rparr>\<rparr>))"
  using assms
  by (simp add: getAvailableInputs_def getAddress_in_range client_getUtxoSet_def Let_def
      split: sum.split)

text \<open>
  Claim C5, as the code has it. With the wallet index at 0, \<^verbatim>\<open>_getAvailableInputs\<close>
  fails in the index check of \<^verbatim>\<open>_getPublicKey\<close>, called with index -1: the error is
  the argument error every out-of-range derivation index raises, of kind
  \<open>InvalidArgument\<close>, and the wallet and the record of requests are as before, so no
  UTXO query is issued. With the index within \<open>1..1000\<close> it issues one UTXO query for
  the address at index - 1 and returns the answer, each entry in the input shape
  (or the error of the query).
\<close>

theorem getAvailableInputs_result:
  "(walletIndex w = 0 \<longrightarrow>
      getAvailableInputs L w = (Inl (IllegalArgument ''index''), w)
      \<and> kind_of (IllegalArgument ''index'') = InvalidArgument) \<and>
   (1 \<le> walletIndex w \<and> walletIndex w \<le> maxWalletIndex \<longrightarrow>
      getAvailableInputs L w =
        (let a = toAddress L (hdPublicKey w (walletIndex w - 1))
         in (case utxoResponse (restClient w) a of
               Inl e \<Rightarrow> Inl e
             | Inr utxoSet \<Rightarrow> Inr (map toInput utxoSet),
             w\<lparr>restClient := (restClient w)\<lparr>requests :=
                  requests (restClient w) @ [GET (''/addr/'' @ a @ ''/utxo'')]\<rparr>\<rparr>))) \<and>
   txId (toInput u) = txid u \<and> outputIndex (toInput u) = vout u \<and>
   address (toInput u) = utxo.address u \<and> script (toInput u) = scriptPubKey u \<and>
   satoshis (toInput u) = utxo.satoshis u"
  by (simp add: getAvailableInputs_no_history getAvailableInputs_query toInput_def)

theorem getAvailableInputs_result_witness:
  "walletIndex cleanWallet = 0
   \<and> getAvailableInputs testLibrary cleanWallet = (Inl (IllegalArgument ''index''), cleanWallet)
   \<and> 1 \<le> walletIndex dirtyWallet \<and> walletIndex dirtyWallet \<le> maxWalletIndex
   \<and> fst (getAvailableInputs testLibrary dirtyWallet) = Inr TRANSACTION_INPUTS
   \<and> requests (restClient (snd (getAvailableInputs testLibrary dirtyWallet))) =
       [GET ''/addr/addr:pub/utxo'']"
proof -
  have h: "walletIndex cleanWallet = 0"
      "1 \<le> walletIndex dirtyWallet \<and> walletIndex dirtyWallet \<le> maxWalletIndex"
    by (simp_all add: test_defs maxWalletIndex_def)
  with getAvailableInputs_result [of cleanWallet testLibrary]
    getAvailableInputs_result [of dirtyWallet testLibrary]
  show ?thesis
    by (simp add: Let_def test_defs toInput_def)
qed

text \<open>
  The claim as stated names a kind of its own (\<open>InsufficientHistory\<close>) for this failure.
  On the clean wallet of the test suite the error is the one \<^verbatim>\<open>_getPublicKey\<close> raises
  for any out-of-range index, here for index 1001 as well, which is an invalid argument.
\<close>

theorem getAvailableInputs_kind_counterexample:
  "walletIndex cleanWallet = 0
   \<and> fst (getAvailableInputs testLibrary cleanWallet) = Inl (IllegalArgument ''index'')
   \<and> getPublicKey cleanWallet 1001 = Inl (IllegalArgument ''index'')
   \<and> kind_of (IllegalArgument ''index'') \<noteq> InsufficientHistory"
  by (simp add: test_defs getAvailableInputs_def getAddress_def getPublicKey_def
      checkArgument_def maxWalletIndex_def)

section \<open>The public operations: balance, send, withdraw\<close>

text \<open>
  Claim C9. \<^verbatim>\<open>getBalance\<close> scans first. When the scan has returned and left the
  wallet index at 0, the balance is 0 and the wallet, with its record of requests, is
  the one the scan left: no request follows the scan. Otherwise one address request
  for the address at index - 1 follows, and the balance is the sum of the confirmed and
  unconfirmed satoshis it reports (or the error of that request).
\<close>

theorem getBalance_result:
  assumes "indexInRange w" and "updateWalletIndex L w = (Inr (), w1)"
  shows "(walletIndex w1 = 0 \<longrightarrow> getBalance L w = (Inr 0, w1)) \<and>
         (walletIndex w1 \<noteq> 0 \<longrightarrow>
            getBalance L w =
              (let a = toAddress L (hdPublicKey w1 (walletIndex w1 - 1))
               in (case addrResponse (restClient w1) a of
                     Inl e \<Rightarrow> Inl e
                   | Inr d \<Rightarrow> Inr (balanceSat d + unconfirmedBalanceSat d),
                   w1\<lparr>restClient := (restClient w1)\<lparr>requests :=
                        requests (restClient w1) @ [GET (''/addr/'' @ a)]\<rparr>\<rparr>)))"
proof -
  from scan_in_range [OF assms(1), of L] assms(2)
  have r: "0 \<le> walletIndex w1" "walletIndex w1 \<le> maxWalletIndex"
    by (simp_all add: indexInRange_def)
  show ?thesis
  proof (intro conjI impI)
    assume "walletIndex w1 = 0"
    with assms(2) show "getBalance L w = (Inr 0, w1)"
      by (simp add: getBalance_def)
  next
    assume "walletIndex w1 \<noteq> 0"
    with r have "0 \<le> walletIndex w1 - 1" "walletIndex w1 - 1 \<le> maxWalletIndex"
      by simp_all
    with assms(2) \<open>walletIndex w1 \<noteq> 0\<close>
    show "getBalance L w =
              (let a = toAddress L (hdPublicKey w1 (walletIndex w1 - 1))
               in (case addrResponse (restClient w1) a of
                     Inl e \<Rightarrow> Inl e
                   | Inr d \<Rightarrow> Inr (balanceSat d + unconfirmedBalanceSat d),
                   w1\<lparr>restClient := (restClient w1)\<lparr>requests :=
                        requests (restClient w1) @ [GET (''/addr/'' @ a)]\<rparr>\<rparr>))"
      by (simp add: getBalance_def getAddress_in_range client_getBalance_def
          client_getAddress_def Let_def split: sum.split)
  qed
qed

theorem getBalance_result_witness:
  "indexInRange cleanWallet
   \<and> fst (updateWalletIndex testLibrary cleanWallet) = Inr ()
   \<and> walletIndex (snd (updateWalletIndex testLibrary cleanWallet)) = 0
   \<and> getBalance testLibrary cleanWallet = (Inr 0, snd (updateWalletIndex testLibrary cleanWallet))
   \<and> requests (restClient (snd (getBalance testLibrary cleanWallet))) = [GET ''/addr/addr:pub'']
   \<and> indexInRange newWallet
   \<and> fst (updateWalletIndex testLibrary newWallet) = Inr ()
   \<and> walletIndex (snd (updateWalletIndex testLibrary newWallet)) = 1
   \<and> fst (getBalance testLibrary newWallet) = Inr 3000"
proof -
  have h: "indexInRange cleanWallet" "indexInRange newWallet"
    by (simp_all add: indexInRange_def test_defs maxWalletIndex_def)
  have c: "updateWalletIndex testLibrary cleanWallet =
      (Inr (), cleanWallet\<lparr>restClient := cleanClient\<lparr>requests := [GET ''/addr/addr:pub'']\<rparr>\<rparr>)"
    by (simp add: updateWalletIndex.simps test_defs getAddress_def getPublicKey_def
        checkArgument_def maxWalletIndex_def client_getAddress_def)
  have d: "updateWalletIndex testLibrary newWallet =
      (Inr (), newWallet\<lparr>walletIndex := 1, restClient := dirtyClient\<lparr>requests :=
         [GET ''/addr/addr:pub'', GET ''/addr/addr:pub+'']\<rparr>\<rparr>)"
    by (simp add: updateWalletIndex.simps test_defs getAddress_def getPublicKey_def
        checkArgument_def maxWalletIndex_def client_getAddress_def)
  from getBalance_result [OF h(1) c] getBalance_result [OF h(2) d] h c d
  show ?thesis
    by (simp add: Let_def test_defs)
qed

text \<open>
  Claim C8, as the code has it. \<^verbatim>\<open>send\<close> checks that the recipient is a valid address,
  that \<^verbatim>\<open>Number.isInteger(amount)\<close> holds and that the fee is \<^verbatim>\<open>undefined\<close> or an
  integer, in this order, before anything else. When a check fails the result is the
  argument error naming the first failed argument, and the wallet and the record of
  requests are as before: no scan, no input collection, no broadcast.
\<close>

theorem send_invalid_argument:
  assumes "\<not> isValid L recipient \<or> \<not> Number_isInteger amount
           \<or> (fee \<noteq> Undefined \<and> \<not> Number_isInteger fee)"
  shows "send L w recipient amount fee =
     (Inl (IllegalArgument
        (if \<not> isValid L recipient then ''recipient''
         else if \<not> Number_isInteger amount then ''amount'' else ''fee'')), w)
     \<and> kind_of (IllegalArgument
        (if \<not> isValid L recipient then ''recipient''
         else if \<not> Number_isInteger amount then ''amount'' else ''fee'')) = InvalidArgument"
  using assms by (auto simp add: send_def checkArgument_def)

theorem send_invalid_argument_witness:
  "isValid testLibrary THIRD_ADDRESS \<and> \<not> Number_isInteger NonInteger
   \<and> send testLibrary newWallet THIRD_ADDRESS NonInteger Undefined =
       (Inl (IllegalArgument ''amount''), newWallet)
   \<and> requests (restClient (snd (send testLibrary newWallet THIRD_ADDRESS NonInteger Undefined))) = []"
proof -
  have h: "\<not> isValid testLibrary THIRD_ADDRESS \<or> \<not> Number_isInteger NonInteger
      \<or> (Undefined \<noteq> Undefined \<and> \<not> Number_isInteger Undefined)"
    by simp
  have v: "isValid testLibrary THIRD_ADDRESS" by (simp add: test_defs)
  from send_invalid_argument [OF h, of newWallet] v h
  show ?thesis by (simp add: test_defs)
qed

text \<open>
  The claim as stated also promises the argument error for a negative amount and for a
  negative fee. Both pass \<^verbatim>\<open>Number.isInteger\<close>: on the new wallet of the test suite
  the scan and the UTXO query are issued for an amount of -1, and for a fee of -1.
\<close>

theorem send_negative_counterexample:
  "isValid testLibrary THIRD_ADDRESS
   \<and> take 3 (requests (restClient (snd (send testLibrary newWallet THIRD_ADDRESS (Integer (- 1)) (Integer 500))))) =
       [GET ''/addr/addr:pub'', GET ''/addr/addr:pub+'', GET ''/addr/addr:pub/utxo'']
   \<and> take 3 (requests (restClient (snd (send testLibrary newWallet THIRD_ADDRESS (Integer 1500) (Integer (- 1)))))) =
       [GET ''/addr/addr:pub'', GET ''/addr/addr:pub+'', GET ''/addr/addr:pub/utxo'']"
  by (simp add: send_def updateWalletIndex.simps test_defs getAddress_def getPublicKey_def
      getPrivateKey_def checkArgument_def maxWalletIndex_def client_getAddress_def
      getAvailableInputs_def client_getUtxoSet_def buildTransaction_def balanceOf_def Let_def
      toInput_def Transaction_new_def Transaction_from_def Transaction_to_def
      Transaction_sign_def client_sendTransaction_def)

section \<open>Withdrawing the whole balance\<close>

lemma balanceOf_nonneg: "\<forall>i \<in> set ins. 0 \<le> satoshis i \<Longrightarrow> 0 \<le> balanceOf ins"
  unfolding balanceOf_sum by (induction ins) simp_all

lemma calculateFee_full_balance:
  assumes "1 \<le> walletIndex w" and "walletIndex w \<le> maxWalletIndex"
    and "recipient \<noteq> toAddress L (hdPublicKey w (walletIndex w))"
    and "list_all (acceptsInput L) ins" and "0 \<le> balanceOf ins"
    and "acceptsAddress L recipient"
  shows "calculateFee L w ins recipient (balanceOf ins) =
     Inr (ceilBytesTimesRate (length (toString L
        \<lparr>inputs = ins, outputs = [(recipient, balanceOf ins)],
         signedWith = [hdPrivateKey w (walletIndex w - 1)]\<rparr>)))"
proof -
  have enough: "\<not> balanceOf ins < balanceOf ins + 0" by simp
  have c: "recipient = toAddress L (hdPublicKey w (walletIndex w))
       \<or> balanceOf ins - balanceOf ins - 0 \<le> 0
       \<or> acceptsAddress L (toAddress L (hdPublicKey w (walletIndex w)))" by simp
  from assms(5) have p: "0 \<le> (if recipient = toAddress L (hdPublicKey w (walletIndex w))
               then balanceOf ins - 0 else balanceOf ins)" by simp
  from buildTransaction_built [OF enough assms(1,2,4) p assms(6) c] assms(3)
  have "buildTransaction L w ins recipient (balanceOf ins) 0 =
      Inr \<lparr>inputs = ins, outputs = [(recipient, balanceOf ins)],
           signedWith = [hdPrivateKey w (walletIndex w - 1)]\<rparr>"
    by (simp add: Let_def)
  then show ?thesis by (simp add: calculateFee_def)
qed

text \<open>
  Claim C7, as the code has it. Let the recipient be a valid address other than the
  change address, let the scan have returned with a wallet index within \<open>1..1000\<close>
  and the UTXO query have answered with distinct unspent outputs that the library
  accepts, of non-negative satoshis and a balance of at most \<open>2^53\<close>, and let the
  fee estimated for sending the whole balance be no more than the balance. \<^verbatim>\<open>widthraw\<close> then
  broadcasts one transaction: it spends all the inputs and has the single output of
  balance - fee to the recipient, without a change output. The result is the answer
  to that broadcast.
\<close>

theorem widthraw_single_output:
  assumes "isValid L recipient" and "acceptsAddress L recipient"
    and "updateWalletIndex L w = (Inr (), w1)"
    and "1 \<le> walletIndex w1" and "walletIndex w1 \<le> maxWalletIndex"
    and "utxoResponse (restClient w1) (toAddress L (hdPublicKey w1 (walletIndex w1 - 1))) = Inr utxoSet"
    and "list_all (acceptsInput L) (map toInput utxoSet)"
    and "distinct (map (\<lambda>i. (txId i, outputIndex i)) (map toInput utxoSet))"
    and "\<forall>i \<in> set (map toInput utxoSet). 0 \<le> satoshis i"
    and "sum_list (map satoshis (map toInput utxoSet)) \<le> 2 ^ 53"
    and "recipient \<noteq> toAddress L (hdPublicKey w1 (walletIndex w1))"
    and "ceilBytesTimesRate (length (toString L
           \<lparr>inputs = map toInput utxoSet,
            outputs = [(recipient, sum_list (map satoshis (map toInput utxoSet)))],
            signedWith = [hdPrivateKey w1 (walletIndex w1 - 1)]\<rparr>))
         \<le> sum_list (map satoshis (map toInput utxoSet))"
  shows "let a = toAddress L (hdPublicKey w1 (walletIndex w1 - 1));
             ins = map toInput utxoSet;
             balance = sum_list (map satoshis ins);
             key = hdPrivateKey w1 (walletIndex w1 - 1);
             w2 = w1\<lparr>restClient := (restClient w1)\<lparr>requests :=
                     requests (restClient w1) @ [GET (''/addr/'' @ a @ ''/utxo'')]\<rparr>\<rparr>;
             fee = ceilBytesTimesRate (length (toString L
                     \<lparr>inputs = ins, outputs = [(recipient, balance)], signedWith = [key]\<rparr>));
             tx = \<lparr>inputs = ins, outputs = [(recipient, balance - fee)], signedWith = [key]\<rparr>
         in calculateFee L w2 ins recipient balance = Inr fee
          \<and> buildTransaction L w2 ins recipient (balance - fee) fee = Inr tx
          \<and> widthraw L w recipient =
              (sendResponse (restClient w1) (toString L tx),
               w1\<lparr>restClient := (restClient w1)\<lparr>requests :=
                    requests (restClient w1) @
                      [GET (''/addr/'' @ a @ ''/utxo''), POST ''/tx/send'' (toString L tx)]\<rparr>\<rparr>)"
proof -
  let ?a = "toAddress L (hdPublicKey w1 (walletIndex w1 - 1))"
  let ?ins = "map toInput utxoSet"
  let ?key = "hdPrivateKey w1 (walletIndex w1 - 1)"
  let ?w2 = "w1\<lparr>restClient := (restClient w1)\<lparr>requests :=
                     requests (restClient w1) @ [GET (''/addr/'' @ ?a @ ''/utxo'')]\<rparr>\<rparr>"
  let ?fee = "ceilBytesTimesRate (length (toString L
                     \<lparr>inputs = ?ins, outputs = [(recipient, balanceOf ?ins)], signedWith = [?key]\<rparr>))"
  let ?tx = "\<lparr>inputs = ?ins, outputs = [(recipient, balanceOf ?ins - ?fee)], signedWith = [?key]\<rparr>"
  have collect: "getAvailableInputs L w1 = (Inr ?ins, ?w2)"
    using getAvailableInputs_query [OF assms(4,5), of L] assms(6) by (simp add: Let_def)
  have r2: "1 \<le> walletIndex ?w2" "walletIndex ?w2 \<le> maxWalletIndex"
      "recipient \<noteq> toAddress L (hdPublicKey ?w2 (walletIndex ?w2))"
    using assms(4,5,11) by simp_all
  have pos: "0 \<le> balanceOf ?ins"
    using assms(9) by (rule balanceOf_nonneg)
  have fee: "calculateFee L ?w2 ?ins recipient (balanceOf ?ins) = Inr ?fee"
    using calculateFee_full_balance [OF r2 assms(7) pos assms(2)] by simp
  from assms(12) have covered:
    "0 \<le> (if recipient = toAddress L (hdPublicKey ?w2 (walletIndex ?w2))
          then balanceOf ?ins - ?fee else balanceOf ?ins - ?fee)"
    by (simp add: balanceOf_sum)
  have enough: "\<not> balanceOf ?ins < (balanceOf ?ins - ?fee) + ?fee" by simp
  have c: "recipient = toAddress L (hdPublicKey ?w2 (walletIndex ?w2))
       \<or> balanceOf ?ins - (balanceOf ?ins - ?fee) - ?fee \<le> 0
       \<or> acceptsAddress L (toAddress L (hdPublicKey ?w2 (walletIndex ?w2)))" by simp
  from buildTransaction_built [OF enough r2(1,2) assms(7) covered assms(2) c] r2(3)
  have built: "buildTransaction L ?w2 ?ins recipient (balanceOf ?ins - ?fee) ?fee = Inr ?tx"
    by (simp add: Let_def)
  have "widthraw L w recipient =
      (sendResponse (restClient w1) (toString L ?tx),
       w1\<lparr>restClient := (restClient w1)\<lparr>requests :=
            requests (restClient w1) @
              [GET (''/addr/'' @ ?a @ ''/utxo''), POST ''/tx/send'' (toString L ?tx)]\<rparr>\<rparr>)"
    using assms(1,3) collect fee built
    by (simp add: widthraw_def checkArgument_def Let_def client_sendTransaction_def)
  with fee built show ?thesis
    by (simp add: Let_def balanceOf_sum)
qed

theorem widthraw_single_output_witness:
  "isValid testLibrary THIRD_ADDRESS \<and> acceptsAddress testLibrary THIRD_ADDRESS
   \<and> updateWalletIndex testLibrary newWallet =
       (Inr (), newWallet\<lparr>walletIndex := 1, restClient := dirtyClient\<lparr>requests :=
          [GET ''/addr/addr:pub'', GET ''/addr/addr:pub+'']\<rparr>\<rparr>)
   \<and> utxoResponse dirtyClient FIRST_ADDRESS = Inr UTXO_SET
   \<and> list_all (acceptsInput testLibrary) (map toInput UTXO_SET)
   \<and> distinct (map (\<lambda>i. (txId i, outputIndex i)) (map toInput UTXO_SET))
   \<and> sum_list (map satoshis (map toInput UTXO_SET)) = 3000
   \<and> THIRD_ADDRESS \<noteq> SECOND_ADDRESS
   \<and> ceilBytesTimesRate (length (toString testLibrary
         \<lparr>inputs = map toInput UTXO_SET, outputs = [(THIRD_ADDRESS, 3000)],
          signedWith = [''prv'']\<rparr>)) = 375
   \<and> fst (widthraw testLibrary newWallet THIRD_ADDRESS) = Inr ''some transaction id''
   \<and> requests (restClient (snd (widthraw testLibrary newWallet THIRD_ADDRESS))) =
       [GET ''/addr/addr:pub'', GET ''/addr/addr:pub+'', GET ''/addr/addr:pub/utxo'',
        POST ''/tx/send'' (toString testLibrary
          \<lparr>inputs = TRANSACTION_INPUTS, outputs = [(THIRD_ADDRESS, 2625)], signedWith = [''prv'']\<rparr>)]"
proof -
  let ?w1 = "newWallet\<lparr>walletIndex := 1, restClient := dirtyClient\<lparr>requests :=
          [GET ''/addr/addr:pub'', GET ''/addr/addr:pub+'']\<rparr>\<rparr>"
  have f: "ceilBytesTimesRate 680 = 375"
    by (simp add: ceilBytesTimesRate_def roundToDouble_def satoshisPerByte_mantissa_def
        Let_def bitlen.simps)
  have h1: "isValid testLibrary THIRD_ADDRESS" "acceptsAddress testLibrary THIRD_ADDRESS"
    by (simp_all add: test_defs)
  have h2: "updateWalletIndex testLibrary newWallet = (Inr (), ?w1)"
    by (simp add: updateWalletIndex.simps test_defs getAddress_def getPublicKey_def
        checkArgument_def maxWalletIndex_def client_getAddress_def)
  have h3: "1 \<le> walletIndex ?w1" "walletIndex ?w1 \<le> maxWalletIndex"
    by (simp_all add: maxWalletIndex_def)
  have h5: "utxoResponse (restClient ?w1)
      (toAddress testLibrary (hdPublicKey ?w1 (walletIndex ?w1 - 1))) = Inr UTXO_SET"
    by (simp add: test_defs)
  have h6: "list_all (acceptsInput testLibrary) (map toInput UTXO_SET)"
      "distinct (map (\<lambda>i. (txId i, outputIndex i)) (map toInput UTXO_SET))"
      "\<forall>i \<in> set (map toInput UTXO_SET). 0 \<le> satoshis i"
      "sum_list (map satoshis (map toInput UTXO_SET)) \<le> 2 ^ 53"
    by (simp_all add: test_defs toInput_def)
  have s: "sum_list (map satoshis (map toInput UTXO_SET)) = 3000"
    by (simp add: test_defs toInput_def)
  have h7: "THIRD_ADDRESS \<noteq> toAddress testLibrary (hdPublicKey ?w1 (walletIndex ?w1))"
    by (simp add: test_defs)
  have h8: "ceilBytesTimesRate (length (toString testLibrary
           \<lparr>inputs = map toInput UTXO_SET,
            outputs = [(THIRD_ADDRESS, sum_list (map satoshis (map toInput UTXO_SET)))],
            signedWith = [hdPrivateKey ?w1 (walletIndex ?w1 - 1)]\<rparr>))
         \<le> sum_list (map satoshis (map toInput UTXO_SET))"
    using f by (simp add: test_defs toInput_def)
  from widthraw_single_output [OF h1 h2 h3 h5 h6 h7 h8] h1 h2 h6(1,2) s f
  show ?thesis
    by (simp add: Let_def test_defs toInput_def)
qed

text \<open>
  The claim as stated takes every balance. On a wallet whose first address is spent,
  the inputs are none and the balance is 0; the fee estimated for the transaction of
  one output is 49, the amount is -49, and the library's \<^verbatim>\<open>to\<close> throws on it:
  after the two requests of the scan and the UTXO query nothing is broadcast.
\<close>

theorem widthraw_single_output_counterexample:
  "isValid testLibrary THIRD_ADDRESS \<and> THIRD_ADDRESS \<noteq> SECOND_ADDRESS
   \<and> calculateFee testLibrary (spentWallet\<lparr>walletIndex := 1\<rparr>) [] THIRD_ADDRESS 0 = Inr 49
   \<and> fst (widthraw testLibrary spentWallet THIRD_ADDRESS) =
       Inl (LibraryError ''Amount is expected to be a positive integer'')
   \<and> walletIndex (snd (widthraw testLibrary spentWallet THIRD_ADDRESS)) = 1
   \<and> requests (restClient (snd (widthraw testLibrary spentWallet THIRD_ADDRESS))) =
       [GET ''/addr/addr:pub'', GET ''/addr/addr:pub+'', GET ''/addr/addr:pub/utxo'']"
  by (simp add: widthraw_def updateWalletIndex.simps test_defs getAddress_def getPublicKey_def
      getPrivateKey_def checkArgument_def maxWalletIndex_def client_getAddress_def
      getAvailableInputs_def client_getUtxoSet_def calculateFee_def buildTransaction_def
      balanceOf_def Let_def Transaction_new_def Transaction_from_def Transaction_to_def
      Transaction_sign_def ceilBytesTimesRate_def roundToDouble_def
      satoshisPerByte_mantissa_def bitlen.simps)

section \<open>The fee estimate\<close>

declare bitlen.simps [simp del]

lemma bitlen_bounds: "0 < n \<Longrightarrow> 2 ^ (bitlen n - 1) \<le> n \<and> n < 2 ^ bitlen n"
proof (induction n rule: bitlen.induct)
  case (1 n)
  show ?case
  proof (cases "n div 2 = 0")
    case True
    with "1.prems" have "n = Suc 0" by arith
    moreover have "bitlen (Suc 0) = Suc 0"
      by (simp add: bitlen.simps [of "Suc 0"] bitlen.simps [of 0])
    ultimately show ?thesis by simp
  next
    case False
    then have pos: "0 < n div 2" by simp
    from "1.prems" have n0: "n \<noteq> 0" by simp
    from "1.IH" [OF n0 pos]
    have ih: "2 ^ (bitlen (n div 2) - 1) \<le> n div 2" "n div 2 < 2 ^ bitlen (n div 2)"
      by simp_all
    have b: "bitlen n = Suc (bitlen (n div 2))"
      using n0 by (simp add: bitlen.simps [of n])
    have bpos: "0 < bitlen (n div 2)"
      using pos by (simp add: bitlen.simps [of "n div 2"])
    then have "(2::nat) ^ bitlen (n div 2) = 2 * 2 ^ (bitlen (n div 2) - 1)"
      by (cases "bitlen (n div 2)") simp_all
    with ih b show ?thesis by (simp, arith)
  qed
qed

text \<open>
  Rounding to 53 significant bits moves a number by at most a \<open>2^53\<close>-th of itself.
\<close>

lemma roundToDouble_error:
  "2 ^ 53 * roundToDouble n \<le> 2 ^ 53 * n + n \<and> 2 ^ 53 * n \<le> 2 ^ 53 * roundToDouble n + n"
proof (cases "bitlen n \<le> 53")
  case True
  then show ?thesis by (simp add: roundToDouble_def)
next
  case False
  define s where "s = bitlen n - 53"
  define P :: nat where "P = 2 ^ s"
  define q where "q = n div P"
  define r where "r = n mod P"
  from False have npos: "0 < n"
    by (cases "n = 0") (simp_all add: bitlen.simps [of 0])
  have "bitlen n - 1 = 52 + s" using False by (simp add: s_def)
  with bitlen_bounds [OF npos] have "(2::nat) ^ (52 + s) \<le> n" by simp
  then have big: "2 ^ 52 * P \<le> n" by (simp add: power_add P_def)
  define Q where "Q = q * P"
  have n: "n = Q + r" by (simp add: Q_def q_def r_def)
  have rP: "r < P" by (simp add: r_def P_def)
  have R: "roundToDouble n = (if 2 * r > P \<or> (2 * r = P \<and> odd q) then Q + P else Q)"
    using False by (simp add: roundToDouble_def Let_def s_def P_def q_def r_def Q_def)
  show ?thesis
  proof (cases "2 * r > P \<or> (2 * r = P \<and> odd q)")
    case True
    then have half: "P \<le> 2 * r" by auto
    from True R have "roundToDouble n = Q + P" by simp
    with n big half rP show ?thesis by simp
  next
    case down: False
    then have half: "2 * r \<le> P" by auto
    from down R have "roundToDouble n = Q" by auto
    with n big half show ?thesis by simp
  qed
qed

lemma ceil_div_bounds:
  fixes a d :: int
  assumes "0 < d"
  shows "a \<le> d * (- ((- a) div d)) \<and> d * (- ((- a) div d)) < a + d"
proof -
  have "d * ((- a) div d) = - a - (- a) mod d"
    by (simp add: minus_mod_eq_mult_div)
  then have "d * (- ((- a) div d)) = a + (- a) mod d" by simp
  moreover have "0 \<le> (- a) mod d" "(- a) mod d < d" using assms by simp_all
  ultimately show ?thesis by simp
qed

text \<open>
  The double-precision fee is the exact one or one satoshi more, for every string
  shorter than \<open>2^48\<close> characters.
\<close>

lemma ceilBytesTimesRate_bounds:
  assumes "len < 2 ^ 48"
  shows "ceilBytesTimesRate_exact len \<le> ceilBytesTimesRate len
       \<and> ceilBytesTimesRate len \<le> ceilBytesTimesRate_exact len + 1"
proof -
  define n where "n = len * satoshisPerByte_mantissa"
  define r where "r = roundToDouble n"
  define N where "N = int n"
  define R where "R = int r"
  define l where "l = int len"
  define f where "f = ceilBytesTimesRate len"
  define c where "c = ceilBytesTimesRate_exact len"
  have l: "0 \<le> l" "l < 281474976710656"
    using assms by (simp_all add: l_def)
  have N: "N = 4953959590107546 * l"
    by (simp add: N_def n_def l_def satoshisPerByte_mantissa_def)
  from roundToDouble_error [of n]
  have "9007199254740992 * r \<le> 9007199254740993 * n" "9007199254740991 * n \<le> 9007199254740992 * r"
    by (simp_all add: r_def)
  then have err: "9007199254740992 * R \<le> 9007199254740993 * N"
      "9007199254740991 * N \<le> 9007199254740992 * R"
    unfolding R_def N_def by linarith+
  have "f = - ((- R) div 9007199254740992)"
    by (simp add: f_def ceilBytesTimesRate_def R_def r_def n_def)
  with ceil_div_bounds [of 9007199254740992 R]
  have f: "R \<le> 9007199254740992 * f" "9007199254740992 * f < R + 9007199254740992"
    by simp_all
  have "c = - ((- (11 * l)) div 20)"
    by (simp add: c_def ceilBytesTimesRate_exact_def l_def)
  with ceil_div_bounds [of 20 "11 * l"]
  have c: "11 * l \<le> 20 * c" "20 * c < 11 * l + 20"
    by simp_all
  have "c \<le> f \<and> f \<le> c + 1"
    using l N err f c by arith
  then show ?thesis by (simp add: f_def c_def)
qed

text \<open>
  Claim C6, as the code has it. \<^verbatim>\<open>_calculateFee\<close> runs the builder once, with fee 0,
  and throws what the builder throws. Otherwise the fee is \<^verbatim>\<open>Math.ceil\<close> of the
  double-precision product of the byte length of the serialized transaction (half the
  length of its hexadecimal string) and the double \<^verbatim>\<open>1.1\<close>. For every
  serialization shorter than \<open>2^48\<close> characters this is the byte length times 1.1 rounded
  up in exact arithmetic, or one satoshi more.
\<close>

theorem calculateFee_result:
  "(buildTransaction L w ins recipient amount 0 = Inl e \<longrightarrow>
      calculateFee L w ins recipient amount = Inl e) \<and>
   (buildTransaction L w ins recipient amount 0 = Inr tx \<longrightarrow>
      calculateFee L w ins recipient amount = Inr (ceilBytesTimesRate (length (toString L tx)))
      \<and> (length (toString L tx) < 2 ^ 48 \<longrightarrow>
           ceilBytesTimesRate_exact (length (toString L tx))
             \<le> ceilBytesTimesRate (length (toString L tx))
           \<and> ceilBytesTimesRate (length (toString L tx))
             \<le> ceilBytesTimesRate_exact (length (toString L tx)) + 1))"
  using ceilBytesTimesRate_bounds [of "length (toString L tx)"]
  by (simp add: calculateFee_def)

theorem calculateFee_result_witness:
  "buildTransaction testLibrary dirtyWallet TRANSACTION_INPUTS THIRD_ADDRESS 1500 0 =
     Inr \<lparr>inputs = TRANSACTION_INPUTS,
          outputs = [(THIRD_ADDRESS, 1500), (SECOND_ADDRESS, 1500)], signedWith = [''prv'']\<rparr>
   \<and> length (toString testLibrary \<lparr>inputs = TRANSACTION_INPUTS,
          outputs = [(THIRD_ADDRESS, 1500), (SECOND_ADDRESS, 1500)], signedWith = [''prv'']\<rparr>) = 748
   \<and> calculateFee testLibrary dirtyWallet TRANSACTION_INPUTS THIRD_ADDRESS 1500 = Inr 412
   \<and> ceilBytesTimesRate_exact 748 = 412
   \<and> buildTransaction testLibrary dirtyWallet TRANSACTION_INPUTS THIRD_ADDRESS 6000 0 =
       Inl (TopayError ''Cannot create transaction'' ''Insufficient funds.'')
   \<and> calculateFee testLibrary dirtyWallet TRANSACTION_INPUTS THIRD_ADDRESS 6000 =
       Inl (TopayError ''Cannot create transaction'' ''Insufficient funds.'')"
proof -
  let ?tx = "\<lparr>inputs = TRANSACTION_INPUTS,
          outputs = [(THIRD_ADDRESS, 1500), (SECOND_ADDRESS, 1500)], signedWith = [''prv'']\<rparr>"
  have b: "buildTransaction testLibrary dirtyWallet TRANSACTION_INPUTS THIRD_ADDRESS 1500 0 = Inr ?tx"
    by (simp add: buildTransaction_def balanceOf_def Let_def test_defs getAddress_def
        getPublicKey_def getPrivateKey_def checkArgument_def maxWalletIndex_def
        Transaction_new_def Transaction_from_def Transaction_to_def Transaction_sign_def)
  have s: "length (toString testLibrary ?tx) = 748"
    by (simp add: test_defs)
  have f: "ceilBytesTimesRate 748 = 412"
    by (simp add: ceilBytesTimesRate_def roundToDouble_def satoshisPerByte_mantissa_def
        Let_def bitlen.simps)
  have x: "ceilBytesTimesRate_exact 748 = 412"
    by (simp add: ceilBytesTimesRate_exact_def)
  have i: "buildTransaction testLibrary dirtyWallet TRANSACTION_INPUTS THIRD_ADDRESS 6000 0 =
       Inl (TopayError ''Cannot create transaction'' ''Insufficient funds.'')"
    by (simp add: buildTransaction_def balanceOf_def Let_def test_defs)
  from calculateFee_result [of testLibrary dirtyWallet TRANSACTION_INPUTS THIRD_ADDRESS 1500
      "TopayError ''Cannot create transaction'' ''Insufficient funds.''" ?tx]
    calculateFee_result [of testLibrary dirtyWallet TRANSACTION_INPUTS THIRD_ADDRESS 6000
      "TopayError ''Cannot create transaction'' ''Insufficient funds.''" ?tx]
    b s f x i
  show ?thesis by simp
qed

text \<open>
  The claim as stated gives the product in exact arithmetic. On the wallet of the test
  suite, sending the whole balance of 3000 satoshis to the third address sizes a
  transaction of two inputs and one output, 340 bytes: 340 times 1.1 is 374, the
  double-precision product is just above it, and the fee is 375.
\<close>

theorem calculateFee_exact_counterexample:
  "buildTransaction testLibrary dirtyWallet TRANSACTION_INPUTS THIRD_ADDRESS 3000 0 =
     Inr \<lparr>inputs = TRANSACTION_INPUTS, outputs = [(THIRD_ADDRESS, 3000)], signedWith = [''prv'']\<rparr>
   \<and> length (toString testLibrary \<lparr>inputs = TRANSACTION_INPUTS,
          outputs = [(THIRD_ADDRESS, 3000)], signedWith = [''prv'']\<rparr>) = 2 * 340
   \<and> ceilBytesTimesRate_exact (2 * 340) = 374
   \<and> calculateFee testLibrary dirtyWallet TRANSACTION_INPUTS THIRD_ADDRESS 3000 = Inr 375"
  by (simp add: calculateFee_def buildTransaction_def balanceOf_def Let_def test_defs
      getAddress_def getPublicKey_def getPrivateKey_def checkArgument_def maxWalletIndex_def
      Transaction_new_def Transaction_from_def Transaction_to_def Transaction_sign_def
      ceilBytesTimesRate_def roundToDouble_def satoshisPerByte_mantissa_def bitlen.simps
      ceilBytesTimesRate_exact_def)

end
